theory Spec2Isabelle
  imports Complex_Main
begin

section \<open>Python strings\<close>

text \<open>
  A Python \<open>str\<close> is modelled as a \<open>string\<close> (a list of characters), and the character
  classes are those Python gives the ASCII range: \<open>str.isspace\<close> and the regular expression
  class \<open>\s\<close> hold of the blank, of \<open>\t \n \v \f \r\<close> and of the four separators
  \<open>0x1C .. 0x1F\<close>; \<open>\w\<close> holds of letters, digits and the underscore; \<open>str.lower\<close> maps
  \<open>A .. Z\<close> to \<open>a .. z\<close>. Characters above \<open>0x7F\<close> are outside this model: here they are
  neither blank nor word characters and have no case. The normalisation is modelled a
  second time below, over any characters and with Python's character functions as
  parameters; the idempotence of the normalisation is proved of that model.
\<close>

definition isspace :: "char \<Rightarrow> bool" where
  "isspace c = (of_char c = (32::int) \<or> (9 \<le> (of_char c :: int) \<and> (of_char c :: int) \<le> 13)
     \<or> (28 \<le> (of_char c :: int) \<and> (of_char c :: int) \<le> 31))"

definition isupper :: "char \<Rightarrow> bool" where
  "isupper c = (65 \<le> (of_char c :: int) \<and> (of_char c :: int) \<le> 90)"

definition islower :: "char \<Rightarrow> bool" where
  "islower c = (97 \<le> (of_char c :: int) \<and> (of_char c :: int) \<le> 122)"

definition isdigit :: "char \<Rightarrow> bool" where
  "isdigit c = (48 \<le> (of_char c :: int) \<and> (of_char c :: int) \<le> 57)"

definition isword :: "char \<Rightarrow> bool" where
  \<comment> \<open>the class \<open>\w\<close>\<close>
  "isword c = (isupper c \<or> islower c \<or> isdigit c \<or> c = CHR ''_'')"

definition lower_char :: "char \<Rightarrow> char" where
  "lower_char c = (if isupper c then char_of (of_char c + (32::int)) else c)"

definition lower :: "string \<Rightarrow> string" where
  \<comment> \<open>\<open>str.lower()\<close>\<close>
  "lower s = map lower_char s"

definition lstrip :: "string \<Rightarrow> string" where
  "lstrip s = dropWhile isspace s"

definition rstrip :: "string \<Rightarrow> string" where
  "rstrip s = rev (dropWhile isspace (rev s))"

definition strip :: "string \<Rightarrow> string" where
  \<comment> \<open>\<open>str.strip()\<close>\<close>
  "strip s = rstrip (lstrip s)"

definition rstrip_chars :: "string \<Rightarrow> string \<Rightarrow> string" where
  \<comment> \<open>\<open>s.rstrip(chars)\<close>\<close>
  "rstrip_chars chars s = rev (dropWhile (\<lambda>c. c \<in> set chars) (rev s))"

fun split :: "string \<Rightarrow> string list" where
  \<comment> \<open>\<open>str.split()\<close>: the maximal runs of non-blank characters, in order\<close>
  "split [] = []"
| "split (c # cs) =
     (if isspace c then split cs
      else if cs = [] \<or> isspace (hd cs) then [c] # split cs
      else (case split cs of [] \<Rightarrow> [[c]] | w # ws \<Rightarrow> (c # w) # ws))"

fun join :: "string \<Rightarrow> string list \<Rightarrow> string" where
  \<comment> \<open>\<open>sep.join(ws)\<close>\<close>
  "join sep [] = []"
| "join sep [w] = w"
| "join sep (w # ws) = w @ sep @ join sep ws"

fun startswith :: "string \<Rightarrow> string \<Rightarrow> bool" where
  "startswith s [] = True"
| "startswith [] (p # ps) = False"
| "startswith (c # cs) (p # ps) = (c = p \<and> startswith cs ps)"

fun contains :: "string \<Rightarrow> string \<Rightarrow> bool" where
  \<comment> \<open>\<open>sub in s\<close>\<close>
  "contains [] sub = (sub = [])"
| "contains (c # cs) sub = (startswith (c # cs) sub \<or> contains cs sub)"

section \<open>The answer evaluator: text normalisation\<close>

definition normalize_text :: "string \<Rightarrow> string" where
  \<comment> \<open>\<open>AnswerEvaluator._normalize_text\<close>: \<open>lower\<close>, \<open>re.sub(r'[^\w\s]', '', text)\<close>,
      \<open>' '.join(text.split())\<close>, \<open>strip\<close>\<close>
  "normalize_text text =
     (let text = lower text;
          text = filter (\<lambda>c. isword c \<or> isspace c) text;
          text = join '' '' (split text)
      in strip text)"

subsection \<open>Normalisation over Unicode\<close>

text \<open>
  Python's strings are sequences of Unicode code points, and \<open>str.lower\<close> is not a map over
  the characters: it may give two characters for one (U+0130) and looks at the neighbours
  of a capital sigma. So \<open>_normalize_text\<close> is also modelled over any type of characters,
  with the four character functions it calls as parameters: \<open>str_lower\<close> is \<open>str.lower\<close>, a
  function of the whole string; \<open>re_word\<close> and \<open>re_space\<close> are the classes \<open>\w\<close> and \<open>\s\<close> of
  the regular expression; \<open>str_isspace\<close> is the white space that \<open>str.split()\<close> and
  \<open>str.strip()\<close> cut at; \<open>blank\<close> is the character of the literal \<open>' '\<close>.
\<close>

record 'c py_unicode =
  str_lower :: "'c list \<Rightarrow> 'c list"
  re_word :: "'c \<Rightarrow> bool"
  re_space :: "'c \<Rightarrow> bool"
  str_isspace :: "'c \<Rightarrow> bool"
  blank :: "'c"

fun split_by :: "('c \<Rightarrow> bool) \<Rightarrow> 'c list \<Rightarrow> 'c list list" where
  \<comment> \<open>\<open>str.split()\<close>: the maximal runs of characters that are not white space\<close>
  "split_by sp [] = []"
| "split_by sp (c # cs) =
     (if sp c then split_by sp cs
      else if cs = [] \<or> sp (hd cs) then [c] # split_by sp cs
      else (case split_by sp cs of [] \<Rightarrow> [[c]] | w # ws \<Rightarrow> (c # w) # ws))"

fun join_by :: "'c list \<Rightarrow> 'c list list \<Rightarrow> 'c list" where
  \<comment> \<open>\<open>sep.join(ws)\<close>\<close>
  "join_by sep [] = []"
| "join_by sep [w] = w"
| "join_by sep (w # ws) = w @ sep @ join_by sep ws"

definition strip_by :: "('c \<Rightarrow> bool) \<Rightarrow> 'c list \<Rightarrow> 'c list" where
  \<comment> \<open>\<open>str.strip()\<close>\<close>
  "strip_by sp s = rev (dropWhile sp (rev (dropWhile sp s)))"

definition normalize_text_in :: "'c py_unicode \<Rightarrow> 'c list \<Rightarrow> 'c list" where
  \<comment> \<open>\<open>AnswerEvaluator._normalize_text\<close>, lines 34 to 39\<close>
  "normalize_text_in u text =
     (let text = str_lower u text;
          text = filter (\<lambda>c. re_word u c \<or> re_space u c) text;
          text = join_by [blank u] (split_by (str_isspace u) text)
      in strip_by (str_isspace u) text)"

text \<open>
  What the proof of idempotence uses of the library. \<open>str.lower\<close> leaves a character alone
  when the string of that one character is its own lower case. The blank is white space,
  is matched by \<open>\s\<close> and is left alone; the lower case of a string holds only characters
  that are left alone; and a string of characters that are left alone is its own lower
  case. Python's functions meet this on every code point: no character of the lower case
  of any character has a lower case of its own, and \<open>str.lower\<close> rewrites character by
  character, the capital sigma (which is not left alone) being the only one whose image
  depends on its neighbours.
\<close>

definition lower_fixes :: "'c py_unicode \<Rightarrow> 'c \<Rightarrow> bool" where
  "lower_fixes u c = (str_lower u [c] = [c])"

definition unicode_contract :: "'c py_unicode \<Rightarrow> bool" where
  "unicode_contract u =
     (str_isspace u (blank u) \<and> re_space u (blank u) \<and> lower_fixes u (blank u) \<and>
      (\<forall>s. list_all (lower_fixes u) (str_lower u s)) \<and>
      (\<forall>s. list_all (lower_fixes u) s \<longrightarrow> str_lower u s = s))"

text \<open>
  Two instances: the ASCII classes of the first section, for which \<open>normalize_text_in\<close> is
  \<open>normalize_text\<close>, and the code points up to U+00FF with U+0130, U+0131 and U+0307, as
  integers, with Python's lower case (U+0130 gives \<open>i\<close> and U+0307), \<open>\w\<close> and white space
  on them.
\<close>

definition ascii :: "char py_unicode" where
  "ascii = \<lparr>str_lower = lower, re_word = isword, re_space = isspace, str_isspace = isspace,
             blank = CHR '' ''\<rparr>"

definition latin_lower_char :: "int \<Rightarrow> int list" where
  "latin_lower_char c =
     (if 65 \<le> c \<and> c \<le> 90 then [c + 32]
      else if 192 \<le> c \<and> c \<le> 222 \<and> c \<noteq> 215 then [c + 32]
      else if c = 304 then [105, 775]
      else [c])"

definition latin_space :: "int \<Rightarrow> bool" where
  "latin_space c = (c = 32 \<or> (9 \<le> c \<and> c \<le> 13) \<or> (28 \<le> c \<and> c \<le> 31) \<or> c = 133 \<or> c = 160)"

definition latin_word :: "int \<Rightarrow> bool" where
  "latin_word c =
     ((48 \<le> c \<and> c \<le> 57) \<or> (65 \<le> c \<and> c \<le> 90) \<or> c = 95 \<or> (97 \<le> c \<and> c \<le> 122) \<or>
      c = 170 \<or> c = 178 \<or> c = 179 \<or> c = 181 \<or> c = 185 \<or> c = 186 \<or>
      (188 \<le> c \<and> c \<le> 190) \<or>
      (192 \<le> c \<and> c \<le> 255 \<and> c \<noteq> 215 \<and> c \<noteq> 247) \<or> c = 304 \<or> c = 305)"

definition latin :: "int py_unicode" where
  "latin = \<lparr>str_lower = (\<lambda>s. concat (map latin_lower_char s)), re_word = latin_word,
             re_space = latin_space, str_isspace = latin_space, blank = 32\<rparr>"

text \<open>The strings \<open>Caf\<close>, U+00E9, \<open>  au lait!\<close> and blank, U+0130, \<open>STANBUL\<close>, U+00A0.\<close>

definition cafe_au_lait :: "int list" where
  "cafe_au_lait = [67, 97, 102, 233, 32, 32, 97, 117, 32, 108, 97, 105, 116, 33]"

definition istanbul :: "int list" where
  "istanbul = [32, 304, 83, 84, 65, 78, 66, 85, 76, 160]"

text \<open>The words that \<open>split_by\<close> returns: none is empty, none holds white space.\<close>

definition words_of :: "('c \<Rightarrow> bool) \<Rightarrow> 'c list list \<Rightarrow> bool" where
  "words_of sp ws = list_all (\<lambda>w. w \<noteq> [] \<and> list_all (\<lambda>c. \<not> sp c) w) ws"

section \<open>Python floats\<close>

text \<open>
  The evaluator computes with Python floats (IEEE-754 doubles). Every float it meets is
  finite and non-negative, so a float is modelled as a pair of a significand and a binary
  exponent, denoting \<open>mant * 2 ^ expo\<close>, and each arithmetic operation computes the exact
  result and rounds it to 53 significant bits, ties to even, as the hardware does.
  Overflow and subnormal numbers are out of reach of the values that occur (lengths of
  strings, quotients of two lengths, and products and sums of those with constants
  between 0 and 100) and are not modelled.
\<close>

datatype pyfloat = PyFloat (mant: int) (expo: int)

function bit_length :: "int \<Rightarrow> nat" where
  \<comment> \<open>\<open>int.bit_length()\<close>, for an integer that is not negative\<close>
  "bit_length n = (if n \<le> 0 then 0 else Suc (bit_length (n div 2)))"
  by pat_completeness auto
termination
  by (relation "measure nat") auto

declare bit_length.simps [simp del]

definition round53 :: "int \<Rightarrow> int \<Rightarrow> pyfloat" where
  \<comment> \<open>\<open>m * 2 ^ e\<close> rounded to the nearest double, ties to the even significand\<close>
  "round53 m e =
     (if m < 2 ^ 53 then PyFloat m e
      else let s = bit_length m - 53;
               q = m div 2 ^ s;
               r = m mod 2 ^ s;
               h = 2 ^ (s - 1)
           in PyFloat (if h < r \<or> (r = h \<and> odd q) then q + 1 else q) (e + int s))"

definition float_of_nat :: "nat \<Rightarrow> pyfloat" where
  \<comment> \<open>the conversion of a Python \<open>int\<close> in a mixed operation\<close>
  "float_of_nat n = round53 (int n) 0"

definition fmul :: "pyfloat \<Rightarrow> pyfloat \<Rightarrow> pyfloat" where
  "fmul a b = round53 (mant a * mant b) (expo a + expo b)"

definition fadd :: "pyfloat \<Rightarrow> pyfloat \<Rightarrow> pyfloat" where
  "fadd a b =
     (let e = min (expo a) (expo b)
      in round53 (mant a * 2 ^ nat (expo a - e) + mant b * 2 ^ nat (expo b - e)) e)"

definition fdiv :: "pyfloat \<Rightarrow> pyfloat \<Rightarrow> pyfloat" where
  \<comment> \<open>for a divisor that is not zero: the quotient is computed to more than 55 bits, with
      one more bit that records a remainder, and then rounded\<close>
  "fdiv a b =
     (let s = 55 + bit_length (mant b);
          q = (mant a * 2 ^ s) div mant b;
          r = (mant a * 2 ^ s) mod mant b
      in round53 (2 * q + (if r = 0 then 0 else 1)) (expo a - expo b - int s - 1))"

definition fle :: "pyfloat \<Rightarrow> pyfloat \<Rightarrow> bool" where
  \<comment> \<open>\<open>a <= b\<close>, exact\<close>
  "fle a b =
     (let e = min (expo a) (expo b)
      in mant a * 2 ^ nat (expo a - e) \<le> mant b * 2 ^ nat (expo b - e))"

definition flt :: "pyfloat \<Rightarrow> pyfloat \<Rightarrow> bool" where
  \<comment> \<open>\<open>a < b\<close>, exact\<close>
  "flt a b =
     (let e = min (expo a) (expo b)
      in mant a * 2 ^ nat (expo a - e) < mant b * 2 ^ nat (expo b - e))"

definition fint :: "nat \<Rightarrow> pyfloat" where
  \<comment> \<open>an \<open>int\<close> compared with a float: Python compares the exact values\<close>
  "fint n = PyFloat (int n) 0"

text \<open>The float literals of the source, as the doubles Python reads them as.\<close>

definition f0_0 :: pyfloat where "f0_0 = PyFloat 0 0"
definition f0_3 :: pyfloat where "f0_3 = PyFloat 5404319552844595 (- 54)"
definition f0_4 :: pyfloat where "f0_4 = PyFloat 3602879701896397 (- 53)"
definition f0_5 :: pyfloat where "f0_5 = PyFloat 1 (- 1)"
definition f0_6 :: pyfloat where "f0_6 = PyFloat 5404319552844595 (- 53)"
definition f0_7 :: pyfloat where "f0_7 = PyFloat 3152519739159347 (- 52)"
definition f100 :: pyfloat where "f100 = PyFloat 100 0"

definition round_half_even :: "pyfloat \<Rightarrow> int" where
  \<comment> \<open>the integer that the format \<open>.0f\<close> prints\<close>
  "round_half_even a =
     (if 0 \<le> expo a then mant a * 2 ^ nat (expo a)
      else let d = 2 ^ nat (- expo a);
               q = mant a div d;
               r = mant a mod d
           in if d < 2 * r \<or> (2 * r = d \<and> odd q) then q + 1 else q)"

function str_int :: "int \<Rightarrow> string" where
  \<comment> \<open>\<open>str(n)\<close>, for an integer that is not negative\<close>
  "str_int n =
     (if n < 10 then [char_of (48 + n)] else str_int (n div 10) @ [char_of (48 + n mod 10)])"
  by pat_completeness auto
termination
  by (relation "measure nat") auto

declare str_int.simps [simp del]

definition format_percent :: "pyfloat \<Rightarrow> string" where
  \<comment> \<open>\<open>f"{x:.0%}"\<close>: the float is multiplied by 100, printed with no decimals, and
      followed by a percent sign\<close>
  "format_percent x = str_int (round_half_even (fmul x f100)) @ ''%''"

section \<open>The answer evaluator\<close>

text \<open>
  \<open>difflib.SequenceMatcher(None, a, b).ratio()\<close> is a function of the standard library, not
  of this program: the evaluator's functions take it as the parameter \<open>ratio\<close>, and every
  theorem about them holds for whatever the library computes.
\<close>

type_synonym seq_ratio = "string \<Rightarrow> string \<Rightarrow> pyfloat"

definition stop_words :: "string list" where
  "stop_words =
     [''the'', ''a'', ''an'', ''and'', ''or'', ''but'', ''in'', ''on'', ''at'', ''to'', ''for'',
      ''of'', ''with'', ''by'', ''is'', ''are'', ''was'', ''were'', ''be'', ''been'', ''being'',
      ''have'', ''has'', ''had'', ''do'', ''does'', ''did'', ''will'', ''would'', ''should'',
      ''could'', ''may'', ''might'', ''must'', ''can'', ''this'', ''that'', ''these'', ''those'']"

definition extract_keywords :: "string \<Rightarrow> string set" where
  \<comment> \<open>\<open>AnswerEvaluator._extract_keywords\<close>\<close>
  "extract_keywords text =
     (let words = split (normalize_text text)
      in set (filter (\<lambda>w. 2 < length w \<and> w \<notin> set stop_words) words))"

definition fuzzy_match :: "seq_ratio \<Rightarrow> string \<Rightarrow> string \<Rightarrow> pyfloat" where
  \<comment> \<open>\<open>AnswerEvaluator._fuzzy_match\<close>\<close>
  "fuzzy_match ratio text1 text2 =
     (let norm1 = normalize_text text1;
          norm2 = normalize_text text2
      in if norm1 = [] \<or> norm2 = [] then f0_0
         else
           let similarity = ratio norm1 norm2;
               keywords1 = extract_keywords text1;
               keywords2 = extract_keywords text2
           in if keywords1 \<noteq> {} \<and> keywords2 \<noteq> {} then
                let overlap = card (keywords1 \<inter> keywords2);
                    union = card (keywords1 \<union> keywords2);
                    keyword_similarity =
                      (if 0 < union then fdiv (float_of_nat overlap) (float_of_nat union)
                       else f0_0);
                    combined = fadd (fmul similarity f0_4) (fmul keyword_similarity f0_6)
                in combined
              else similarity)"

definition two_word_phrases :: "string list \<Rightarrow> string list" where
  \<comment> \<open>the loop over \<open>range(len(correct_words) - 1)\<close> of \<open>_check_key_phrases\<close>\<close>
  "two_word_phrases correct_words =
     filter (\<lambda>phrase. 5 < length phrase)
       (map (\<lambda>(w, v). w @ '' '' @ v) (zip correct_words (tl correct_words)))"

definition check_key_phrases :: "string \<Rightarrow> string \<Rightarrow> bool" where
  \<comment> \<open>\<open>AnswerEvaluator._check_key_phrases\<close>\<close>
  "check_key_phrases user_answer correct_answer =
     (let user_norm = normalize_text user_answer;
          correct_norm = normalize_text correct_answer;
          correct_words = split correct_norm
      in if length correct_words < 2 then False
         else
           let phrases = two_word_phrases correct_words
           in if list_ex (\<lambda>phrase. contains user_norm phrase) phrases then True
              else
                let important_words = filter (\<lambda>w. 4 < length w) correct_words;
                    matches = length (filter (\<lambda>w. contains user_norm w) important_words)
                in if important_words \<noteq> []
                   then fle (fmul (float_of_nat (length important_words)) f0_5) (fint matches)
                   else False)"

definition incorrect_feedback :: "string \<Rightarrow> string" where
  \<comment> \<open>\<open>f"Incorrect. The correct answer is: {correct_answer}"\<close>\<close>
  "incorrect_feedback correct_answer = ''Incorrect. The correct answer is: '' @ correct_answer"

definition close_feedback :: "pyfloat \<Rightarrow> string" where
  \<comment> \<open>\<open>f" (Your answer was close: {similarity:.0%} similar)"\<close>\<close>
  "close_feedback similarity =
     '' (Your answer was close: '' @ format_percent similarity @ '' similar)''"

definition evaluate_answer ::
  "seq_ratio \<Rightarrow> pyfloat \<Rightarrow> string \<Rightarrow> string \<Rightarrow> string \<Rightarrow> string \<Rightarrow> bool \<times> string" where
  \<comment> \<open>\<open>AnswerEvaluator.evaluate_answer\<close>; \<open>similarity_threshold\<close> is the field that the
      constructor sets, 0.6 unless the caller gives another\<close>
  "evaluate_answer ratio similarity_threshold user_answer correct_answer question context =
     (if strip user_answer = [] then (False, incorrect_feedback correct_answer)
      else
        let user_norm = normalize_text user_answer;
            correct_norm = normalize_text correct_answer
        in if user_norm = correct_norm then (True, ''Correct!'')
           else if contains user_norm correct_norm then (True, ''Correct!'')
           else if contains correct_norm user_norm \<and>
                   flt (fmul (float_of_nat (length correct_norm)) f0_7) (fint (length user_norm))
                then (True, ''Correct!'')
           else
             let similarity = fuzzy_match ratio user_answer correct_answer
             in if fle similarity_threshold similarity then (True, ''Correct!'')
                else if check_key_phrases user_answer correct_answer then (True, ''Correct!'')
                else
                  let feedback = incorrect_feedback correct_answer;
                      feedback =
                        (if flt f0_3 similarity then feedback @ close_feedback similarity
                         else feedback)
                  in (False, feedback))"

definition default_threshold :: pyfloat where
  \<comment> \<open>\<open>similarity_threshold: float = 0.6\<close>\<close>
  "default_threshold = f0_6"

subsection \<open>The library's ratio on short strings\<close>

text \<open>
  To run the evaluator on concrete answers, \<open>ratio\<close> needs a value. For strings of fewer than
  200 characters, where \<open>difflib\<close> leaves its popularity heuristic off and no character is
  junk, the library takes the longest common block (the one that starts earliest in the first
  string, then earliest in the second, among the longest), does the same to the left and to
  the right of it, and returns \<open>2.0 * matches / (len(a) + len(b))\<close>, or \<open>1.0\<close> for two empty
  strings. \<open>matching_total\<close> counts the matched characters, with the length of the first
  string as a bound on the depth.
\<close>

fun common_prefix :: "string \<Rightarrow> string \<Rightarrow> nat" where
  "common_prefix (x # xs) (y # ys) = (if x = y then Suc (common_prefix xs ys) else 0)"
| "common_prefix xs ys = 0"

fun scan_second ::
  "string \<Rightarrow> string \<Rightarrow> nat \<Rightarrow> nat \<Rightarrow> nat \<times> nat \<times> nat \<Rightarrow> nat \<times> nat \<times> nat" where
  \<comment> \<open>the blocks that start at position \<open>i\<close> of the first string, against every position
      \<open>j\<close> of the second: a block replaces the best one only when it is longer\<close>
  "scan_second a_rest [] i j best = best"
| "scan_second a_rest (y # ys) i j best =
     scan_second a_rest ys i (Suc j)
       (case best of
          (besti, bestj, bestsize) \<Rightarrow>
            let k = common_prefix a_rest (y # ys)
            in if bestsize < k then (i, j, k) else (besti, bestj, bestsize))"

fun scan_first :: "string \<Rightarrow> string \<Rightarrow> nat \<Rightarrow> nat \<times> nat \<times> nat \<Rightarrow> nat \<times> nat \<times> nat" where
  "scan_first [] b i best = best"
| "scan_first (x # xs) b i best = scan_first xs b (Suc i) (scan_second (x # xs) b i 0 best)"

definition find_longest_match :: "string \<Rightarrow> string \<Rightarrow> nat \<times> nat \<times> nat" where
  \<comment> \<open>start in the first string, start in the second string, length\<close>
  "find_longest_match a b = scan_first a b 0 (0, 0, 0)"

fun matching_total :: "nat \<Rightarrow> string \<Rightarrow> string \<Rightarrow> nat" where
  "matching_total 0 a b = 0"
| "matching_total (Suc depth) a b =
     (case find_longest_match a b of
        (i, j, k) \<Rightarrow>
          if k = 0 then 0
          else k + matching_total depth (take i a) (take j b)
                 + matching_total depth (drop (i + k) a) (drop (j + k) b))"

definition short_ratio :: seq_ratio where
  "short_ratio a b =
     (let matches = matching_total (length a) a b;
          total = length a + length b
      in if 0 < total
         then fdiv (fmul (PyFloat 2 0) (float_of_nat matches)) (float_of_nat total)
         else PyFloat 1 0)"

section \<open>The quiz runner\<close>

datatype py_error = IndexError | ValueError | LookupError

record quiz_result =
  res_question :: string
  res_user_answer :: string
  res_correct_answer :: string
  res_is_correct :: bool
  res_context :: string

definition list_get :: "'a list \<Rightarrow> int \<Rightarrow> py_error + 'a" where
  \<comment> \<open>\<open>xs[i]\<close>: an index below zero counts from the end, one out of range raises\<close>
  "list_get xs i =
     (if 0 \<le> i \<and> i < int (length xs) then Inr (xs ! nat i)
      else if i < 0 \<and> - int (length xs) \<le> i then Inr (xs ! nat (int (length xs) + i))
      else Inl IndexError)"

definition check_mark :: string where
  \<comment> \<open>U+2705, in UTF-8\<close>
  "check_mark = [CHR 0xE2, CHR 0x9C, CHR 0x85]"

definition cross_mark :: string where
  \<comment> \<open>U+274C, in UTF-8\<close>
  "cross_mark = [CHR 0xE2, CHR 0x9D, CHR 0x8C]"

definition not_found_message :: string where
  "not_found_message = ''Question not found. Please run a quiz first.''"

definition explanation_of :: "quiz_result \<Rightarrow> string" where
  \<comment> \<open>lines 153 to 158 of \<open>quiz_runner.py\<close>\<close>
  "explanation_of result =
     (let explanation = [CHR 0x0A] @ ''Question: '' @ res_question result @ [CHR 0x0A];
          explanation =
            explanation @ ''Correct Answer: '' @ res_correct_answer result @ [CHR 0x0A];
          explanation =
            (if res_context result \<noteq> []
             then explanation @ ''Source: '' @ take 200 (res_context result) @ ''...'' @ [CHR 0x0A]
             else explanation);
          explanation = explanation @ ''Your Answer: '' @ res_user_answer result @ [CHR 0x0A];
          explanation =
            explanation @ ''Result: ''
              @ (if res_is_correct result then check_mark @ '' Correct''
                 else cross_mark @ '' Incorrect'')
              @ [CHR 0x0A]
      in explanation)"

definition explain_question :: "quiz_result list \<Rightarrow> int \<Rightarrow> py_error + string" where
  \<comment> \<open>\<open>QuizRunner.explain_question\<close>, with \<open>self.results\<close> as the first argument\<close>
  "explain_question results question_number =
     (if results = [] \<or> question_number < 1 \<or> int (length results) < question_number
      then Inr not_found_message
      else
        case list_get results (question_number - 1) of
          Inl e \<Rightarrow> Inl e
        | Inr result \<Rightarrow> Inr (explanation_of result))"

section \<open>The question generator\<close>

text \<open>
  The generator calls NLTK, scikit-learn, numpy and the \<open>random\<close> module, and its nine
  pattern strategies are regular expressions over the sentence and part-of-speech tags.
  The properties proved here are about the control flow around them, so they are gathered
  in one record of parameters, and every theorem that does not fix them holds for
  whatever these functions return:
  \<^item> \<open>sent_split\<close>: \<open>sent_tokenize\<close>, or the \<open>re.split\<close> that replaces it when it raises;
  \<^item> \<open>tfidf_fit\<close>: \<open>TfidfVectorizer(...).fit_transform(sentences)\<close>, which may raise;
  \<^item> \<open>tfidf_query\<close>: \<open>vectorizer.transform([topic])\<close> and \<open>cosine_similarity(...)[0]\<close>,
    which may raise; a score is the rational number that the \<open>float64\<close> denotes (the
    program only compares scores);
  \<^item> \<open>argsort\<close>: \<open>numpy.ndarray.argsort\<close>;
  \<^item> \<open>word_tokenize\<close> and \<open>pos_tag\<close> of NLTK, which may raise;
  \<^item> \<open>strategies\<close>: lines 290 to 470 of \<open>_generate_question_from_sentence\<close>, from the
    sentence without its final punctuation to the variables \<open>question\<close> and \<open>answer\<close>
    (\<open>None\<close> when no strategy set them);
  \<^item> \<open>sample_first\<close>, \<open>sample_more\<close>, \<open>shuffle\<close>: the two calls of \<open>random.sample\<close> and
    the call of \<open>random.shuffle\<close> in \<open>generate_questions\<close>.
\<close>

record 'idx externals =
  sent_split :: "string \<Rightarrow> string list"
  tfidf_fit :: "string list \<Rightarrow> py_error + 'idx"
  tfidf_query :: "'idx \<Rightarrow> string \<Rightarrow> py_error + rat list"
  argsort :: "rat list \<Rightarrow> nat list"
  word_tokenize :: "string \<Rightarrow> py_error + string list"
  pos_tag :: "string list \<Rightarrow> py_error + (string \<times> string) list"
  strategies :: "string \<Rightarrow> string option \<times> string option"
  sample_first :: "string list \<Rightarrow> nat \<Rightarrow> string list"
  sample_more :: "string list \<Rightarrow> nat \<Rightarrow> string list"
  shuffle :: "string list \<Rightarrow> string list"

record 'idx generator =
  markdown_content :: string
  sentences :: "string list"
  tfidf :: "'idx option"

subsection \<open>Construction\<close>

definition extract_sentences :: "'idx externals \<Rightarrow> string \<Rightarrow> string list" where
  \<comment> \<open>\<open>QuestionGenerator._extract_sentences\<close>\<close>
  "extract_sentences ext content =
     map strip (filter (\<lambda>s. 20 < length (strip s)) (sent_split ext content))"

definition build_tfidf_index ::
  "'idx externals \<Rightarrow> 'idx generator \<Rightarrow> py_error + 'idx generator" where
  \<comment> \<open>\<open>QuestionGenerator._build_tfidf_index\<close>: no handler surrounds \<open>fit_transform\<close>\<close>
  "build_tfidf_index ext g =
     (let g = (if sentences g = []
               then g\<lparr>sentences := extract_sentences ext (markdown_content g)\<rparr> else g)
      in if sentences g = [] then Inr g
         else case tfidf_fit ext (sentences g) of
                Inl e \<Rightarrow> Inl e
              | Inr idx \<Rightarrow> Inr (g\<lparr>tfidf := Some idx\<rparr>))"

definition QuestionGenerator_init ::
  "'idx externals \<Rightarrow> string \<Rightarrow> py_error + 'idx generator" where
  \<comment> \<open>\<open>QuestionGenerator.__init__\<close>\<close>
  "QuestionGenerator_init ext content =
     build_tfidf_index ext
       \<lparr>markdown_content = content, sentences = extract_sentences ext content, tfidf = None\<rparr>"

subsection \<open>The relevance ranker\<close>

definition count_matches :: "string list \<Rightarrow> string \<Rightarrow> nat" where
  \<comment> \<open>\<open>sum(1 for word in topic_words if word in sent_lower)\<close>, over the set of words\<close>
  "count_matches topic_words sent =
     length (filter (\<lambda>word. contains (lower sent) word) (remdups topic_words))"

definition find_relevant_sentences_keyword :: "string list \<Rightarrow> string \<Rightarrow> nat \<Rightarrow> string list" where
  \<comment> \<open>\<open>QuestionGenerator._find_relevant_sentences_keyword\<close>, and the same lines at the head
      of \<open>_find_relevant_sentences\<close>; \<open>list.sort\<close> is stable, also with \<open>reverse=True\<close>\<close>
  "find_relevant_sentences_keyword sents topic n_sentences =
     (let topic_words = split (lower topic);
          relevant = filter (\<lambda>(sent, matches). 0 < matches)
                       (map (\<lambda>sent. (sent, count_matches topic_words sent)) sents);
          relevant = sort_key (\<lambda>(sent, matches). - int matches) relevant
      in map fst (take n_sentences relevant))"

definition min_similarity :: rat where
  \<comment> \<open>the literal \<open>0.1\<close>, as the double Python reads it as\<close>
  "min_similarity = 3602879701896397 / 36028797018963968"

definition last_n :: "nat \<Rightarrow> 'a list \<Rightarrow> 'a list" where
  \<comment> \<open>\<open>xs[-n:]\<close>, which is all of \<open>xs\<close> when \<open>n\<close> is 0\<close>
  "last_n n xs = (if n = 0 then xs else drop (length xs - n) xs)"

fun pick_relevant :: "string list \<Rightarrow> rat list \<Rightarrow> nat list \<Rightarrow> py_error + string list" where
  \<comment> \<open>\<open>[self.sentences[i] for i in top_indices if similarities[i] > 0.1]\<close>\<close>
  "pick_relevant sents similarities [] = Inr []"
| "pick_relevant sents similarities (i # top_indices) =
     (case list_get similarities (int i) of
        Inl e \<Rightarrow> Inl e
      | Inr score \<Rightarrow>
          if min_similarity < score then
            (case list_get sents (int i) of
               Inl e \<Rightarrow> Inl e
             | Inr sent \<Rightarrow>
                 (case pick_relevant sents similarities top_indices of
                    Inl e \<Rightarrow> Inl e
                  | Inr relevant \<Rightarrow> Inr (sent # relevant)))
          else pick_relevant sents similarities top_indices)"

definition tfidf_search ::
  "'idx externals \<Rightarrow> 'idx generator \<Rightarrow> 'idx \<Rightarrow> string \<Rightarrow> nat \<Rightarrow> py_error + string list" where
  \<comment> \<open>the body of the \<open>try\<close> of \<open>_find_relevant_sentences\<close>\<close>
  "tfidf_search ext g idx topic n_sentences =
     (case tfidf_query ext idx topic of
        Inl e \<Rightarrow> Inl e
      | Inr similarities \<Rightarrow>
          let top_indices = rev (last_n n_sentences (argsort ext similarities))
          in case pick_relevant (sentences g) similarities top_indices of
               Inl e \<Rightarrow> Inl e
             | Inr relevant_sentences \<Rightarrow> Inr (take n_sentences relevant_sentences))"

definition find_relevant_sentences ::
  "'idx externals \<Rightarrow> 'idx generator \<Rightarrow> string \<Rightarrow> nat \<Rightarrow> py_error + string list" where
  \<comment> \<open>\<open>QuestionGenerator._find_relevant_sentences\<close>; \<open>Inl\<close> would be an exception that
      leaves the method\<close>
  "find_relevant_sentences ext g topic n_sentences =
     (case tfidf g of
        None \<Rightarrow> Inr (find_relevant_sentences_keyword (sentences g) topic n_sentences)
      | Some idx \<Rightarrow>
          (case tfidf_search ext g idx topic n_sentences of
             Inl e \<Rightarrow> Inr (find_relevant_sentences_keyword (sentences g) topic n_sentences)
           | Inr relevant_sentences \<Rightarrow> Inr relevant_sentences))"

definition stable_argsort :: "rat list \<Rightarrow> nat list" where
  \<comment> \<open>an index sort that keeps equal scores in index order, as a stable sort does\<close>
  "stable_argsort similarities = sort_key (\<lambda>i. similarities ! i) [0 ..< length similarities]"

definition sorts_indices :: "(rat list \<Rightarrow> nat list) \<Rightarrow> rat list \<Rightarrow> bool" where
  \<comment> \<open>what \<open>argsort\<close> promises: the indices of the array, by ascending value\<close>
  "sorts_indices asort similarities =
     (distinct (asort similarities) \<and>
      set (asort similarities) = {0 ..< length similarities} \<and>
      sorted (map (\<lambda>i. similarities ! i) (asort similarities)))"

subsection \<open>Sentence filters\<close>

definition starts_upper :: "string \<Rightarrow> bool" where
  \<comment> \<open>\<open>s[0].isupper()\<close>, which the source evaluates on a string that is not empty\<close>
  "starts_upper s = (case s of [] \<Rightarrow> False | c # cs \<Rightarrow> isupper c)"

definition is_valid_sentence_for_question :: "'idx externals \<Rightarrow> string \<Rightarrow> bool" where
  \<comment> \<open>\<open>QuestionGenerator._is_valid_sentence_for_question\<close>\<close>
  "is_valid_sentence_for_question ext sentence =
     (if length (strip sentence) < 20 then False
      else if \<not> starts_upper sentence then False
      else if 8 < count_list sentence CHR '','' then False
      else
        case word_tokenize ext sentence of
          Inl e \<Rightarrow> (if length (split sentence) < 5 then False else True)
        | Inr words \<Rightarrow>
            if length words < 5 then False
            else
              case pos_tag ext words of
                Inl e \<Rightarrow> (if length (split sentence) < 5 then False else True)
              | Inr tagged \<Rightarrow>
                  let has_verb = list_ex (\<lambda>(word, tag). startswith tag ''VB'') tagged
                  in if \<not> has_verb \<and> length words < 10 then False else True)"

definition lenient_filter :: "string \<Rightarrow> bool" where
  \<comment> \<open>\<open>len(s.strip()) > 20 and s[0].isupper()\<close>\<close>
  "lenient_filter s = (20 < length (strip s) \<and> starts_upper s)"

subsection \<open>The synthesizer\<close>

text \<open>
  A question record is the dictionary with the keys \<open>question\<close>, \<open>answer\<close> and \<open>context\<close>
  (the fields \<open>q_question\<close>, \<open>q_answer\<close> and \<open>q_context\<close>).
\<close>

record qrecord =
  q_question :: string
  q_answer :: string
  q_context :: string

definition rsplit_head :: "string \<Rightarrow> string" where
  \<comment> \<open>\<open>s.rsplit(' ', 1)[0]\<close>: what stands before the last blank, or all of \<open>s\<close>\<close>
  "rsplit_head s =
     (if CHR '' '' \<in> set s then rev (tl (dropWhile (\<lambda>c. c \<noteq> CHR '' '') (rev s))) else s)"

definition truncate_at :: "nat \<Rightarrow> string \<Rightarrow> string" where
  \<comment> \<open>\<open>s[:k].rsplit(' ', 1)[0] + '...'\<close>\<close>
  "truncate_at k s = rsplit_head (take k s) @ ''...''"

definition clean_answer :: "string \<Rightarrow> string" where
  \<comment> \<open>lines 478 to 483\<close>
  "clean_answer answer =
     (let answer = rstrip_chars ''.!?'' (strip answer);
          answer = join '' '' (split answer)
      in if 100 < length answer then truncate_at 100 answer else answer)"

definition clean_question :: "string \<Rightarrow> string" where
  \<comment> \<open>lines 487 to 492\<close>
  "clean_question question =
     (let question = strip question;
          question = join '' '' (split question)
      in if 200 < length question then truncate_at 200 question else question)"

definition finish_question ::
  "string \<Rightarrow> string option \<times> string option \<Rightarrow> qrecord option" where
  \<comment> \<open>lines 472 to 502: what the function does with \<open>question\<close> and \<open>answer\<close> once the
      strategies have run; \<open>None\<close> and the empty string are both false in a condition\<close>
  "finish_question original_sentence qa =
     (case qa of
        (None, a) \<Rightarrow> None
      | (Some question, a) \<Rightarrow>
          if question = [] then None
          else
            let a = (case a of None \<Rightarrow> None
                     | Some answer \<Rightarrow> if answer = [] then Some answer
                                      else Some (clean_answer answer));
                question = clean_question question
            in case a of
                 None \<Rightarrow> None
               | Some answer \<Rightarrow>
                   if question \<noteq> [] \<and> answer \<noteq> [] \<and> 10 < length question \<and> 5 < length answer
                   then Some \<lparr>q_question = question, q_answer = answer,
                              q_context = take 200 original_sentence\<rparr>
                   else None)"

definition generate_question_from_sentence :: "'idx externals \<Rightarrow> string \<Rightarrow> qrecord option" where
  \<comment> \<open>\<open>QuestionGenerator._generate_question_from_sentence\<close>\<close>
  "generate_question_from_sentence ext sentence =
     (let sentence = strip sentence
      in if length sentence < 20 then None
         else
           let original_sentence = sentence;
               sentence = rstrip_chars ''.!?'' sentence
           in finish_question original_sentence (strategies ext sentence))"

subsection \<open>The assembler\<close>

text \<open>
  The state of the loops of \<open>generate_questions\<close>: the list \<open>questions\<close>, the set
  \<open>seen_questions\<close>, and, for the claims that count them, the sentences handed to
  \<open>_generate_question_from_sentence\<close> so far, in order.
\<close>

record gen_state =
  questions :: "qrecord list"
  seen_questions :: "string set"
  attempted :: "string list"

definition attempt :: "'idx externals \<Rightarrow> string \<Rightarrow> gen_state \<Rightarrow> gen_state \<times> bool" where
  \<comment> \<open>one call of the synthesizer and the duplicate check that follows it in each of the
      three loops; the flag tells whether a question was appended\<close>
  "attempt ext sentence st =
     (let q_data = generate_question_from_sentence ext sentence;
          st = st\<lparr>attempted := attempted st @ [sentence]\<rparr>
      in case q_data of
           None \<Rightarrow> (st, False)
         | Some q \<Rightarrow>
             let q_key = lower (q_question q)
             in if q_key \<notin> seen_questions st
                then (st\<lparr>seen_questions := insert q_key (seen_questions st),
                         questions := questions st @ [q]\<rparr>, True)
                else (st, False))"

fun first_pass :: "'idx externals \<Rightarrow> nat \<Rightarrow> string list \<Rightarrow> nat \<Rightarrow> gen_state \<Rightarrow> gen_state" where
  \<comment> \<open>the loop of lines 545 to 564, with \<open>consecutive_failures\<close> as the fourth argument\<close>
  "first_pass ext num_questions [] consecutive_failures st = st"
| "first_pass ext num_questions (sentence # rest) consecutive_failures st =
     (if num_questions \<le> length (questions st) then st
      else
        case attempt ext sentence st of
          (st, appended) \<Rightarrow>
            let consecutive_failures = (if appended then 0 else consecutive_failures + 1)
            in if 50 < consecutive_failures then st
               else first_pass ext num_questions rest consecutive_failures st)"

fun second_pass :: "'idx externals \<Rightarrow> nat \<Rightarrow> string list \<Rightarrow> gen_state \<Rightarrow> gen_state" where
  \<comment> \<open>the loop of lines 583 to 592\<close>
  "second_pass ext num_questions [] st = st"
| "second_pass ext num_questions (sentence # rest) st =
     (if num_questions \<le> length (questions st) then st
      else second_pass ext num_questions rest (fst (attempt ext sentence st)))"

fun third_pass ::
  "'idx externals \<Rightarrow> nat \<Rightarrow> string set \<Rightarrow> string list \<Rightarrow> gen_state \<Rightarrow> gen_state" where
  \<comment> \<open>the loop of lines 601 to 614\<close>
  "third_pass ext num_questions tried_sentences [] st = st"
| "third_pass ext num_questions tried_sentences (sentence # rest) st =
     (if num_questions \<le> length (questions st) then st
      else if sentence \<in> tried_sentences
      then third_pass ext num_questions tried_sentences rest st
      else third_pass ext num_questions tried_sentences rest (fst (attempt ext sentence st)))"

definition generate_run ::
  "'idx externals \<Rightarrow> 'idx generator \<Rightarrow> string option \<Rightarrow> nat \<Rightarrow> py_error + gen_state" where
  \<comment> \<open>\<open>QuestionGenerator.generate_questions\<close> up to its \<open>return\<close>; \<open>num_questions\<close> is a
      count (the callers pass a number read from digits, 5 or 7)\<close>
  "generate_run ext g topic num_questions =
     (let max_attempts = num_questions * 10;
          found =
            (case topic of
               None \<Rightarrow> Inr None
             | Some t \<Rightarrow>
                 if t = [] then Inr None
                 else (case find_relevant_sentences ext g t max_attempts of
                         Inl e \<Rightarrow> Inl e
                       | Inr r \<Rightarrow> Inr (Some r)))
      in case found of
           Inl e \<Rightarrow> Inl e
         | Inr found \<Rightarrow>
             let relevant_sentences =
                   (case found of
                      Some r \<Rightarrow> r
                    | None \<Rightarrow>
                        if num_questions < length (sentences g)
                        then sample_first ext (sentences g)
                               (min max_attempts (length (sentences g)))
                        else sentences g);
                 valid_sentences = filter (is_valid_sentence_for_question ext) relevant_sentences;
                 valid_sentences =
                   (if length valid_sentences < num_questions * 2
                    then filter lenient_filter relevant_sentences else valid_sentences);
                 st = first_pass ext num_questions valid_sentences 0
                        \<lparr>questions = [], seen_questions = {}, attempted = []\<rparr>;
                 tried_sentences = set valid_sentences;
                 st =
                   (if length (questions st) < num_questions then
                      let remaining_sentences =
                            filter (\<lambda>s. s \<notin> tried_sentences) (sentences g)
                      in if remaining_sentences \<noteq> [] then
                           let additional_sentences =
                                 sample_more ext remaining_sentences
                                   (min (num_questions * 5) (length remaining_sentences));
                               additional_valid = filter lenient_filter additional_sentences
                           in second_pass ext num_questions additional_valid st
                         else st
                    else st);
                 st =
                   (if length (questions st) < num_questions then
                      let all_remaining =
                            shuffle ext (filter (\<lambda>s. 15 < length (strip s)) (sentences g))
                      in third_pass ext num_questions tried_sentences all_remaining st
                    else st)
             in Inr st)"

definition generate_questions ::
  "'idx externals \<Rightarrow> 'idx generator \<Rightarrow> string option \<Rightarrow> nat \<Rightarrow> py_error + qrecord list" where
  \<comment> \<open>\<open>QuestionGenerator.generate_questions\<close>: \<open>return questions[:num_questions]\<close>\<close>
  "generate_questions ext g topic num_questions =
     (case generate_run ext g topic num_questions of
        Inl e \<Rightarrow> Inl e
      | Inr st \<Rightarrow> Inr (take num_questions (questions st)))"

definition attempted_sentences ::
  "'idx externals \<Rightarrow> 'idx generator \<Rightarrow> string option \<Rightarrow> nat \<Rightarrow> string list" where
  \<comment> \<open>the sentences that one call of \<open>generate_questions\<close> hands to the synthesizer\<close>
  "attempted_sentences ext g topic num_questions =
     (case generate_run ext g topic num_questions of
        Inl e \<Rightarrow> []
      | Inr st \<Rightarrow> attempted st)"

section \<open>Notions of the specification\<close>

text \<open>
  The words of the specification that the statements below use. Checks (a) to (d) of the
  evaluator do not decide an answer when it is not blank, its normal form differs from that
  of the correct answer, the correct answer's normal form is not part of it, and it is not
  a part of the correct answer's normal form that is longer than 0.7 times that form.
\<close>

definition undecided_by_strict_checks :: "string \<Rightarrow> string \<Rightarrow> bool" where
  "undecided_by_strict_checks user_answer correct_answer =
     (strip user_answer \<noteq> [] \<and>
      normalize_text user_answer \<noteq> normalize_text correct_answer \<and>
      \<not> contains (normalize_text user_answer) (normalize_text correct_answer) \<and>
      \<not> (contains (normalize_text correct_answer) (normalize_text user_answer) \<and>
         flt (fmul (float_of_nat (length (normalize_text correct_answer))) f0_7)
             (fint (length (normalize_text user_answer)))))"

text \<open>
  The Jaccard index of two keyword sets, \<open>|intersection| / |union|\<close>, as a float.
\<close>

definition keyword_jaccard :: "string set \<Rightarrow> string set \<Rightarrow> pyfloat" where
  "keyword_jaccard k1 k2 = fdiv (float_of_nat (card (k1 \<inter> k2))) (float_of_nat (card (k1 \<union> k2)))"


text \<open>
  The deduplication invariant of a question list: no two records have the same lowercased
  question text.
\<close>

definition no_duplicate_questions :: "qrecord list \<Rightarrow> bool" where
  "no_duplicate_questions qs = distinct (map (\<lambda>q. lower (q_question q)) qs)"

text \<open>
  What the three loops keep true of their state: the questions have no duplicates, and
  \<open>seen_questions\<close> is the set of their keys.
\<close>

definition consistent :: "gen_state \<Rightarrow> bool" where
  "consistent st =
     (no_duplicate_questions (questions st) \<and>
      seen_questions st = set (map (\<lambda>q. lower (q_question q)) (questions st)))"

text \<open>
  The positions in the corpus of the sentences that the vector path of the ranker returns,
  in the order in which it returns them.
\<close>

definition chosen_indices :: "(rat list \<Rightarrow> nat list) \<Rightarrow> rat list \<Rightarrow> nat \<Rightarrow> nat list" where
  "chosen_indices asort similarities n =
     take n (filter (\<lambda>i. min_similarity < similarities ! i)
               (rev (last_n n (asort similarities))))"

text \<open>
  The tie-break that the specification states for the vector path: of two returned
  sentences with equal scores, the one that comes first is the earlier one of the corpus.
\<close>

definition ties_in_corpus_order :: "rat list \<Rightarrow> nat list \<Rightarrow> bool" where
  "ties_in_corpus_order similarities idxs =
     sorted_wrt (\<lambda>i j. similarities ! i = similarities ! j \<longrightarrow> i < j) idxs"

section \<open>Inputs for the examples\<close>

text \<open>
  Sentences for the concrete runs below, and what the externals do on them. The strategies
  are traced by hand on the three sentences they are asked about: strategy 1 (\<open>X is Y\<close>)
  fires on the first two, strategy 3 (a quantity after \<open>takes about\<close>) on the third, whose
  subject runs from its first word to the comma before \<open>takes\<close>. The texts that are
  split hold one sentence. NLTK's data is taken to be missing, so that both of its
  functions raise and the source's handlers run; scikit-learn's \<open>fit_transform\<close> raises
  \<open>ValueError\<close> when \<open>max_df * n_docs < min_df\<close>, which with \<open>max_df = 0.95\<close> and
  \<open>min_df = 1\<close> is the case of a single sentence; \<open>argsort\<close> keeps equal scores in index
  order, as the insertion sort does with which numpy's default sort finishes short
  arrays; the random choices are the first elements, in order.

  The scores of the vector query are an argument. For the corpus of the Agile and the
  Waterfall sentence and the topic \<open>agile\<close>, the terms of both sentences are pruned
  (\<open>max_df\<close>), four terms of equal weight remain of the first sentence, one of them the
  topic, and the scores are 1/2 and 0. For the corpus of the Alpha, the Beta and the Scrum
  sentence and the topic \<open>testing\<close>, the first two sentences have the same weights in the
  same order, hence the same score, about 17/60, and the third has 0.
\<close>

definition agile_sentence :: string where
  "agile_sentence = ''Agile is an iterative software development methodology.''"

definition waterfall_sentence :: string where
  "waterfall_sentence = ''Waterfall is a linear software development methodology.''"

definition scrum_sentence :: string where
  "scrum_sentence = ''Scrum is a framework for Agile teams.''"

definition alpha_sentence :: string where
  "alpha_sentence = ''Alpha testing finds defects before the public release.''"

definition beta_sentence :: string where
  "beta_sentence = ''Beta testing finds defects before the public release.''"

definition onboarding_sentence :: string where
  "onboarding_sentence = ''The complete onboarding programme for newly hired staff, which covers security awareness, development environment setup, code review practice, release procedures, incident response drills and weekly mentoring, takes about 6 weeks.''"

definition onboarding_question :: string where
  \<comment> \<open>\<open>f"How long is {subject.lower()}?"\<close> of strategy 3\<close>
  "onboarding_question = ''How long is the complete onboarding programme for newly hired staff, which covers security awareness, development environment setup, code review practice, release procedures, incident response drills and weekly mentoring,?''"

definition demo_strategies :: "string \<Rightarrow> string option \<times> string option" where
  "demo_strategies sentence =
     (if sentence = rstrip_chars ''.!?'' agile_sentence
      then (Some ''What is Agile?'', Some ''an iterative software development methodology'')
      else if sentence = rstrip_chars ''.!?'' waterfall_sentence
      then (Some ''What is Waterfall?'', Some ''a linear software development methodology'')
      else if sentence = rstrip_chars ''.!?'' onboarding_sentence
      then (Some onboarding_question, Some ''6 weeks'')
      else (None, None))"

definition demo_ext :: "(string \<Rightarrow> py_error + rat list) \<Rightarrow> unit externals" where
  \<comment> \<open>the argument gives the scores of the vector query for a topic\<close>
  "demo_ext scores =
     \<lparr>sent_split = (\<lambda>text. [text]),
      tfidf_fit = (\<lambda>sents. if length sents < 2 then Inl ValueError else Inr ()),
      tfidf_query = (\<lambda>idx topic. scores topic),
      argsort = stable_argsort,
      word_tokenize = (\<lambda>sentence. Inl LookupError),
      pos_tag = (\<lambda>words. Inl LookupError),
      strategies = demo_strategies,
      sample_first = (\<lambda>population k. take k population),
      sample_more = (\<lambda>population k. take k population),
      shuffle = (\<lambda>xs. xs)\<rparr>"

definition demo_generator :: "string list \<Rightarrow> unit generator" where
  \<comment> \<open>a generator whose index was built over the given corpus\<close>
  "demo_generator corpus = \<lparr>markdown_content = [], sentences = corpus, tfidf = Some ()\<rparr>"

section \<open>Normalisation\<close>

lemma split_by_word_sep:
  "w \<noteq> [] \<Longrightarrow> list_all (\<lambda>c. \<not> sp c) w \<Longrightarrow> sp d \<Longrightarrow>
   split_by sp (w @ d # rest) = w # split_by sp rest"
proof (induction w)
  case Nil then show ?case by simp
next
  case (Cons c w)
  show ?case
  proof (cases "w = []")
    case True
    with Cons.prems show ?thesis by simp
  next
    case False
    with Cons have "split_by sp (w @ d # rest) = w # split_by sp rest" by simp
    with Cons.prems False show ?thesis by (cases w) auto
  qed
qed

lemma split_by_word:
  "w \<noteq> [] \<Longrightarrow> list_all (\<lambda>c. \<not> sp c) w \<Longrightarrow> split_by sp w = [w]"
proof (induction w)
  case Nil then show ?case by simp
next
  case (Cons c w)
  show ?case
  proof (cases "w = []")
    case True
    with Cons.prems show ?thesis by simp
  next
    case False
    with Cons have "split_by sp w = [w]" by simp
    with Cons.prems False show ?thesis by (cases w) auto
  qed
qed

lemma split_by_join_by:
  "words_of sp ws \<Longrightarrow> sp b \<Longrightarrow> split_by sp (join_by [b] ws) = ws"
proof (induction "[b]" ws rule: join_by.induct)
  case 1 then show ?case by simp
next
  case (2 w) then show ?case by (simp add: words_of_def split_by_word)
next
  case (3 w v vs)
  then have "split_by sp (join_by [b] (v # vs)) = v # vs" by (simp add: words_of_def)
  moreover have "split_by sp (w @ b # join_by [b] (v # vs)) = w # split_by sp (join_by [b] (v # vs))"
    using 3 by (intro split_by_word_sep) (simp_all add: words_of_def)
  ultimately show ?case by simp
qed

lemma words_of_split_by: "words_of sp (split_by sp s)"
proof (induction s)
  case Nil then show ?case by (simp add: words_of_def)
next
  case (Cons c cs)
  then show ?case by (cases "split_by sp cs") (auto simp: words_of_def)
qed

lemma split_by_all: "list_all P s \<Longrightarrow> list_all (list_all P) (split_by sp s)"
proof (induction s)
  case Nil then show ?case by simp
next
  case (Cons c cs)
  then show ?case by (cases "split_by sp cs") auto
qed

lemma join_by_all:
  "list_all P sep \<Longrightarrow> list_all (list_all P) ws \<Longrightarrow> list_all P (join_by sep ws)"
  by (induction sep ws rule: join_by.induct) simp_all

lemma ends_of_all: "w \<noteq> [] \<Longrightarrow> list_all Q w \<Longrightarrow> Q (hd w) \<and> Q (last w)"
  by (simp add: list_all_iff)

lemma join_by_ends:
  "words_of sp ws \<Longrightarrow> ws \<noteq> [] \<Longrightarrow>
     join_by [b] ws \<noteq> [] \<and> \<not> sp (hd (join_by [b] ws)) \<and> \<not> sp (last (join_by [b] ws))"
proof (induction "[b]" ws rule: join_by.induct)
  case 1 then show ?case by simp
next
  case (2 w)
  then have "w \<noteq> []" "list_all (\<lambda>c. \<not> sp c) w" by (simp_all add: words_of_def)
  from ends_of_all[OF this] \<open>w \<noteq> []\<close> show ?case by simp
next
  case (3 w v vs)
  then have w: "w \<noteq> []" "list_all (\<lambda>c. \<not> sp c) w" by (simp_all add: words_of_def)
  from 3 have "join_by [b] (v # vs) \<noteq> [] \<and> \<not> sp (last (join_by [b] (v # vs)))"
    by (simp add: words_of_def)
  with ends_of_all[OF w] w show ?case by simp
qed

lemma strip_by_join_by: "words_of sp ws \<Longrightarrow> strip_by sp (join_by [b] ws) = join_by [b] ws"
proof (cases "ws = []")
  case True then show ?thesis by (simp add: strip_by_def)
next
  case False
  assume "words_of sp ws"
  from join_by_ends[OF this False, of b]
  have n: "join_by [b] ws \<noteq> []" and h: "\<not> sp (hd (join_by [b] ws))"
    and l: "\<not> sp (last (join_by [b] ws))" by simp_all
  from n h have 1: "dropWhile sp (join_by [b] ws) = join_by [b] ws"
    by (cases "join_by [b] ws") simp_all
  from n l have 2: "dropWhile sp (rev (join_by [b] ws)) = rev (join_by [b] ws)"
    by (cases "join_by [b] ws" rule: rev_cases) simp_all
  show ?thesis by (simp add: strip_by_def 1 2)
qed

lemma normalize_text_in_eq:
  "normalize_text_in u t
     = join_by [blank u] (split_by (str_isspace u)
         (filter (\<lambda>c. re_word u c \<or> re_space u c) (str_lower u t)))"
  by (simp add: normalize_text_in_def Let_def strip_by_join_by words_of_split_by)

lemma filter_join_by: "filter P (join_by sep ws) = join_by (filter P sep) (map (filter P) ws)"
  by (induction sep ws rule: join_by.induct) simp_all

text \<open>
  Claim C8: text normalisation is idempotent. Normalising lowers the case, deletes every
  character that is neither a word character (\<open>\w\<close>, which holds of the underscore too) nor
  white space, joins the words with single blanks and trims; for every string, over any
  characters, doing it twice gives what doing it once gives, given of the library's
  character functions what \<open>unicode_contract\<close> states.
\<close>

theorem normalize_text_in_idempotent:
  "unicode_contract u \<longrightarrow>
     normalize_text_in u (normalize_text_in u x) = normalize_text_in u x"
proof
  assume c: "unicode_contract u"
  let ?keep = "\<lambda>c. re_word u c \<or> re_space u c"
  let ?sp = "str_isspace u"
  let ?b = "blank u"
  let ?ws = "split_by ?sp (filter ?keep (str_lower u x))"
  let ?y = "join_by [?b] ?ws"
  from c have sp: "?sp ?b" and kb: "?keep ?b" and fb: "lower_fixes u ?b"
    and out: "\<And>s. list_all (lower_fixes u) (str_lower u s)"
    and fixd: "\<And>s. list_all (lower_fixes u) s \<Longrightarrow> str_lower u s = s"
    unfolding unicode_contract_def by blast+
  have "list_all (\<lambda>c. lower_fixes u c \<and> ?keep c) (filter ?keep (str_lower u x))"
    using out [of x] by (simp add: list_all_iff)
  then have all: "list_all (list_all (\<lambda>c. lower_fixes u c \<and> ?keep c)) ?ws"
    by (rule split_by_all)
  have ay: "list_all (\<lambda>c. lower_fixes u c \<and> ?keep c) ?y"
    by (rule join_by_all) (use fb kb all in simp_all)
  have fy: "list_all (lower_fixes u) ?y"
    by (rule list.pred_mono_strong [OF ay]) blast
  have ky: "list_all ?keep ?y"
    by (rule list.pred_mono_strong [OF ay]) blast
  from fy have 1: "str_lower u ?y = ?y" by (rule fixd)
  have 2: "filter ?keep ?y = ?y"
    using ky [unfolded list_all_iff] by (rule filter_True)
  have "normalize_text_in u ?y = join_by [?b] (split_by ?sp ?y)"
    by (simp only: normalize_text_in_eq 1 2)
  also have "\<dots> = ?y"
    by (rule arg_cong [OF split_by_join_by [where sp = ?sp and b = ?b, OF words_of_split_by sp]])
  finally show "normalize_text_in u (normalize_text_in u x) = normalize_text_in u x"
    by (simp only: normalize_text_in_eq)
qed


lemma isspace_blank: "isspace CHR '' ''" by (simp add: isspace_def)

lemma lower_char_idem: "lower_char (lower_char c) = lower_char c"
  by (simp add: lower_char_def isupper_def)

lemma split_by_isspace: "split_by isspace s = split s"
  by (induction s) simp_all

lemma join_by_join: "join_by sep ws = join sep ws"
  by (induction sep ws rule: join.induct) simp_all

lemma strip_by_isspace: "strip_by isspace s = strip s"
  by (simp add: strip_by_def strip_def lstrip_def rstrip_def)

lemma normalize_text_ascii: "normalize_text x = normalize_text_in ascii x"
  by (simp add: normalize_text_def normalize_text_in_def ascii_def split_by_isspace
      join_by_join strip_by_isspace)

lemma unicode_contract_ascii: "unicode_contract ascii"
proof -
  have 1: "list_all (lower_fixes ascii) (str_lower ascii s)" for s
    by (simp add: ascii_def lower_fixes_def lower_def list_all_iff lower_char_idem)
  have 2: "list_all (lower_fixes ascii) s \<longrightarrow> str_lower ascii s = s" for s
    by (induction s) (simp_all add: ascii_def lower_fixes_def lower_def)
  have 3: "lower_fixes ascii (blank ascii)"
    by (simp add: ascii_def lower_fixes_def lower_def lower_char_def isupper_def)
  have 4: "str_isspace ascii (blank ascii)" "re_space ascii (blank ascii)"
    by (simp_all add: ascii_def isspace_blank)
  from 1 2 3 4 show ?thesis unfolding unicode_contract_def by blast
qed

lemma latin_lower_char_fixed: "d \<in> set (latin_lower_char c) \<Longrightarrow> latin_lower_char d = [d]"
  by (auto simp: latin_lower_char_def split: if_splits)

lemma unicode_contract_latin: "unicode_contract latin"
proof -
  have 1: "list_all (lower_fixes latin) (str_lower latin s)" for s
    by (auto simp: latin_def lower_fixes_def list_all_iff latin_lower_char_fixed)
  have 2: "list_all (lower_fixes latin) s \<longrightarrow> str_lower latin s = s" for s
    by (induction s) (simp_all add: latin_def lower_fixes_def)
  have 3: "lower_fixes latin (blank latin)"
    by (simp add: latin_def lower_fixes_def latin_lower_char_def)
  have 4: "str_isspace latin (blank latin)" "re_space latin (blank latin)"
    by (simp_all add: latin_def latin_space_def)
  from 1 2 3 4 show ?thesis unfolding unicode_contract_def by blast
qed

theorem normalize_text_in_idempotent_witness:
  "unicode_contract ascii \<and>
   (\<forall>x. normalize_text x = normalize_text_in ascii x) \<and>
   (\<forall>x. normalize_text (normalize_text x) = normalize_text x) \<and>
   unicode_contract latin \<and>
   normalize_text_in latin cafe_au_lait = [99, 97, 102, 233, 32, 97, 117, 32, 108, 97, 105, 116] \<and>
   normalize_text_in latin istanbul = [105, 115, 116, 97, 110, 98, 117, 108] \<and>
   normalize_text_in latin (normalize_text_in latin cafe_au_lait)
     = normalize_text_in latin cafe_au_lait \<and>
   normalize_text_in latin (normalize_text_in latin istanbul) = normalize_text_in latin istanbul"
proof -
  note A = normalize_text_in_idempotent [where u = ascii, THEN mp, OF unicode_contract_ascii]
  note L1 = normalize_text_in_idempotent [where u = latin and x = cafe_au_lait, THEN mp,
      OF unicode_contract_latin]
  note L2 = normalize_text_in_idempotent [where u = latin and x = istanbul, THEN mp,
      OF unicode_contract_latin]
  have 1: "\<forall>x. normalize_text x = normalize_text_in ascii x"
    by (rule allI) (rule normalize_text_ascii)
  have 2: "\<forall>x. normalize_text (normalize_text x) = normalize_text x"
    by (rule allI) (simp only: normalize_text_ascii A)
  have 3: "normalize_text_in latin cafe_au_lait
      = [99, 97, 102, 233, 32, 97, 117, 32, 108, 97, 105, 116]"
    by code_simp
  have 4: "normalize_text_in latin istanbul = [105, 115, 116, 97, 110, 98, 117, 108]"
    by code_simp
  from unicode_contract_ascii 1 2 unicode_contract_latin 3 4
    L1 L2
  show ?thesis by (intro conjI)
qed

section \<open>The cascade of the evaluator\<close>

text \<open>
  The product in check (d) is the rounded one. In Python \<open>90 * 0.7\<close> is
  \<open>62.99999999999999\<close>, so a length of 63 is above it, while \<open>10 * 0.7\<close> is \<open>7.0\<close>.
\<close>

lemma float_product_is_rounded:
  "flt (fmul (float_of_nat 90) f0_7) (fint 63) \<and> \<not> flt (fmul (float_of_nat 10) f0_7) (fint 7)"
  by code_simp

text \<open>
  Claim C1: \<open>evaluate_answer\<close> returns the verdict of the first check that matches, in the
  order (a) to (g): (a) a blank user answer is incorrect, whatever the later checks would say;
  (b) equal normal forms are correct; (c) the correct answer's normal form inside the user's
  is correct; (d) the user's normal form inside the correct answer's, and longer than 0.7
  times it (the product and the comparison are Python's: a float product, rounded, compared
  exactly with the integer length), is correct; (e) a fuzzy score at or above the threshold
  is correct; (f) key phrases are correct; (g) anything else is incorrect, and the feedback
  carries the percentage when the fuzzy score is above 0.3.
\<close>

theorem evaluate_answer_first_match:
  "(strip ua = [] \<longrightarrow>
      evaluate_answer ratio thr ua ca q c = (False, incorrect_feedback ca)) \<and>
   (strip ua \<noteq> [] \<and> normalize_text ua = normalize_text ca \<longrightarrow>
      evaluate_answer ratio thr ua ca q c = (True, ''Correct!'')) \<and>
   (strip ua \<noteq> [] \<and> normalize_text ua \<noteq> normalize_text ca \<and>
    contains (normalize_text ua) (normalize_text ca) \<longrightarrow>
      evaluate_answer ratio thr ua ca q c = (True, ''Correct!'')) \<and>
   (strip ua \<noteq> [] \<and> normalize_text ua \<noteq> normalize_text ca \<and>
    \<not> contains (normalize_text ua) (normalize_text ca) \<and>
    contains (normalize_text ca) (normalize_text ua) \<and>
    flt (fmul (float_of_nat (length (normalize_text ca))) f0_7) (fint (length (normalize_text ua))) \<longrightarrow>
      evaluate_answer ratio thr ua ca q c = (True, ''Correct!'')) \<and>
   (undecided_by_strict_checks ua ca \<and> fle thr (fuzzy_match ratio ua ca) \<longrightarrow>
      evaluate_answer ratio thr ua ca q c = (True, ''Correct!'')) \<and>
   (undecided_by_strict_checks ua ca \<and> \<not> fle thr (fuzzy_match ratio ua ca) \<and>
    check_key_phrases ua ca \<longrightarrow>
      evaluate_answer ratio thr ua ca q c = (True, ''Correct!'')) \<and>
   (undecided_by_strict_checks ua ca \<and> \<not> fle thr (fuzzy_match ratio ua ca) \<and>
    \<not> check_key_phrases ua ca \<longrightarrow>
      evaluate_answer ratio thr ua ca q c =
        (False, incorrect_feedback ca @
           (if flt f0_3 (fuzzy_match ratio ua ca) then close_feedback (fuzzy_match ratio ua ca)
            else [])))"
  by (simp add: evaluate_answer_def undecided_by_strict_checks_def Let_def)

theorem evaluate_answer_first_match_witness:
  "evaluate_answer short_ratio default_threshold ''   '' ''Paris'' [] []
     = (False, ''Incorrect. The correct answer is: Paris'') \<and>
   (normalize_text '' '' = normalize_text '' '' \<and>
    evaluate_answer short_ratio default_threshold '' '' '' '' [] []
     = (False, ''Incorrect. The correct answer is:  '')) \<and>
   evaluate_answer short_ratio default_threshold ''PARIS!'' ''Paris'' [] [] = (True, ''Correct!'') \<and>
   evaluate_answer short_ratio default_threshold ''The quick brown fox'' ''quick brown'' [] []
     = (True, ''Correct!'') \<and>
   evaluate_answer short_ratio default_threshold ''iterative software development''
       ''iterative software development methodology'' [] [] = (True, ''Correct!'') \<and>
   (undecided_by_strict_checks ''iterative software methodology''
       ''iterative software development methodology'' \<and>
    evaluate_answer short_ratio default_threshold ''iterative software methodology''
       ''iterative software development methodology'' [] [] = (True, ''Correct!'')) \<and>
   (\<not> fle default_threshold (fuzzy_match short_ratio ''iterative development''
        ''an iterative software development methodology'') \<and>
    evaluate_answer short_ratio default_threshold ''iterative development''
       ''an iterative software development methodology'' [] [] = (True, ''Correct!'')) \<and>
   evaluate_answer short_ratio default_threshold ''linear development''
       ''an iterative software development methodology'' [] []
     = (False, ''Incorrect. The correct answer is: an iterative software development methodology (Your answer was close: 32% similar)'') \<and>
   evaluate_answer short_ratio default_threshold ''banana''
       ''an iterative software development methodology'' [] []
     = (False, ''Incorrect. The correct answer is: an iterative software development methodology'')"
proof -
  let ?C = "''an iterative software development methodology''"
  let ?D = "''iterative software development methodology''"
  note T = evaluate_answer_first_match [where ratio = short_ratio and thr = default_threshold
      and q = "[]" and c = "[]"]
  have a: "strip ''   '' = []" by code_simp
  have a': "incorrect_feedback ''Paris'' = ''Incorrect. The correct answer is: Paris''"
    by code_simp
  have 1: "evaluate_answer short_ratio default_threshold ''   '' ''Paris'' [] []
     = (False, ''Incorrect. The correct answer is: Paris'')"
    using T [where ua = "''   ''" and ca = "''Paris''", THEN conjunct1, THEN mp, OF a]
    by (simp only: a')
  have b: "strip '' '' = []" by code_simp
  have b': "incorrect_feedback '' '' = ''Incorrect. The correct answer is:  ''"
    by code_simp
  have 2: "evaluate_answer short_ratio default_threshold '' '' '' '' [] []
     = (False, ''Incorrect. The correct answer is:  '')"
    using T [where ua = "'' ''" and ca = "'' ''", THEN conjunct1, THEN mp, OF b]
    by (simp only: b')
  have c: "strip ''PARIS!'' \<noteq> [] \<and> normalize_text ''PARIS!'' = normalize_text ''Paris''"
    by code_simp
  note 3 = T [where ua = "''PARIS!''" and ca = "''Paris''",
      THEN conjunct2, THEN conjunct1, THEN mp, OF c]
  have d: "strip ''The quick brown fox'' \<noteq> [] \<and>
      normalize_text ''The quick brown fox'' \<noteq> normalize_text ''quick brown'' \<and>
      contains (normalize_text ''The quick brown fox'') (normalize_text ''quick brown'')"
    by code_simp
  note 4 = T [where ua = "''The quick brown fox''" and ca = "''quick brown''",
      THEN conjunct2, THEN conjunct2, THEN conjunct1, THEN mp, OF d]
  have e: "strip ''iterative software development'' \<noteq> [] \<and>
      normalize_text ''iterative software development'' \<noteq> normalize_text ?D \<and>
      \<not> contains (normalize_text ''iterative software development'') (normalize_text ?D) \<and>
      contains (normalize_text ?D) (normalize_text ''iterative software development'') \<and>
      flt (fmul (float_of_nat (length (normalize_text ?D))) f0_7)
          (fint (length (normalize_text ''iterative software development'')))"
    by code_simp
  note 5 = T [where ua = "''iterative software development''" and ca = ?D,
      THEN conjunct2, THEN conjunct2, THEN conjunct2, THEN conjunct1, THEN mp, OF e]
  have f: "undecided_by_strict_checks ''iterative software methodology'' ?D"
    by code_simp
  have f': "fle default_threshold (fuzzy_match short_ratio ''iterative software methodology'' ?D)"
    by code_simp
  note 6 = T [where ua = "''iterative software methodology''" and ca = ?D,
      THEN conjunct2, THEN conjunct2, THEN conjunct2, THEN conjunct2, THEN conjunct1,
      THEN mp, OF conjI [OF f f']]
  have g: "undecided_by_strict_checks ''iterative development'' ?C"
    by code_simp
  have g': "\<not> fle default_threshold (fuzzy_match short_ratio ''iterative development'' ?C)"
    by code_simp
  have g'': "check_key_phrases ''iterative development'' ?C"
    by code_simp
  note 7 = T [where ua = "''iterative development''" and ca = ?C,
      THEN conjunct2, THEN conjunct2, THEN conjunct2, THEN conjunct2, THEN conjunct2,
      THEN conjunct1, THEN mp, OF conjI [OF g conjI [OF g' g'']]]
  have hz: "fuzzy_match short_ratio ''linear development'' ?C = PyFloat 5821796089731003 (- 54)"
    by code_simp
  have h: "undecided_by_strict_checks ''linear development'' ?C" by code_simp
  have h1: "\<not> fle default_threshold (PyFloat 5821796089731003 (- 54))" by code_simp
  have h2: "\<not> check_key_phrases ''linear development'' ?C" by code_simp
  have h': "incorrect_feedback ?C @
      (if flt f0_3 (PyFloat 5821796089731003 (- 54))
       then close_feedback (PyFloat 5821796089731003 (- 54)) else [])
      = ''Incorrect. The correct answer is: an iterative software development methodology (Your answer was close: 32% similar)''"
    by code_simp
  have 8: "evaluate_answer short_ratio default_threshold ''linear development'' ?C [] []
     = (False, ''Incorrect. The correct answer is: an iterative software development methodology (Your answer was close: 32% similar)'')"
    using T [where ua = "''linear development''" and ca = ?C,
      THEN conjunct2, THEN conjunct2, THEN conjunct2, THEN conjunct2, THEN conjunct2,
      THEN conjunct2, THEN mp, OF conjI [OF h conjI [OF h1 [folded hz] h2]]]
    by (simp only: hz h')
  have iz: "fuzzy_match short_ratio ''banana'' ?C = PyFloat 4521260802379792 (- 56)"
    by code_simp
  have i: "undecided_by_strict_checks ''banana'' ?C" by code_simp
  have i1: "\<not> fle default_threshold (PyFloat 4521260802379792 (- 56))" by code_simp
  have i2: "\<not> check_key_phrases ''banana'' ?C" by code_simp
  have i': "incorrect_feedback ?C @
      (if flt f0_3 (PyFloat 4521260802379792 (- 56))
       then close_feedback (PyFloat 4521260802379792 (- 56)) else [])
      = ''Incorrect. The correct answer is: an iterative software development methodology''"
    by code_simp
  have 9: "evaluate_answer short_ratio default_threshold ''banana'' ?C [] []
     = (False, ''Incorrect. The correct answer is: an iterative software development methodology'')"
    using T [where ua = "''banana''" and ca = ?C,
      THEN conjunct2, THEN conjunct2, THEN conjunct2, THEN conjunct2, THEN conjunct2,
      THEN conjunct2, THEN mp, OF conjI [OF i conjI [OF i1 [folded iz] i2]]]
    by (simp only: iz i')
  show ?thesis
    by (intro conjI) (rule 1 2 3 4 5 6 7 8 9 f g' refl)+
qed

text \<open>
  Claim C10: the verdict and the feedback of \<open>evaluate_answer\<close> depend on the user answer
  and the correct answer only: two calls that differ in \<open>question\<close> and \<open>context\<close> alone
  return the same pair.
\<close>

theorem evaluate_answer_ignores_question_and_context:
  "evaluate_answer ratio thr ua ca q1 c1 = evaluate_answer ratio thr ua ca q2 c2"
  by (simp add: evaluate_answer_def)

lemma finite_extract_keywords: "finite (extract_keywords t)"
  by (simp add: extract_keywords_def Let_def)

text \<open>
  Claim C7: when both normal forms are non-empty, the fuzzy score is 0.4 times the
  sequence-matching ratio plus 0.6 times the Jaccard index of the keyword sets if both sets
  are non-empty, and the ratio alone otherwise (the products, the quotient and the sum are
  Python's float operations); an answer that reaches check (e) is judged correct by it
  exactly when the score is at or above the threshold, and goes on to checks (f) and (g)
  otherwise; the default threshold is 0.6.
\<close>

theorem fuzzy_score_formula:
  "(normalize_text t1 \<noteq> [] \<and> normalize_text t2 \<noteq> [] \<longrightarrow>
      fuzzy_match ratio t1 t2 =
        (if extract_keywords t1 \<noteq> {} \<and> extract_keywords t2 \<noteq> {}
         then fadd (fmul (ratio (normalize_text t1) (normalize_text t2)) f0_4)
                   (fmul (keyword_jaccard (extract_keywords t1) (extract_keywords t2)) f0_6)
         else ratio (normalize_text t1) (normalize_text t2))) \<and>
   (undecided_by_strict_checks t1 t2 \<and> fle thr (fuzzy_match ratio t1 t2) \<longrightarrow>
      evaluate_answer ratio thr t1 t2 q c = (True, ''Correct!'')) \<and>
   (undecided_by_strict_checks t1 t2 \<and> \<not> fle thr (fuzzy_match ratio t1 t2) \<longrightarrow>
      evaluate_answer ratio thr t1 t2 q c =
        (if check_key_phrases t1 t2 then (True, ''Correct!'')
         else (False, incorrect_feedback t2 @
                 (if flt f0_3 (fuzzy_match ratio t1 t2)
                  then close_feedback (fuzzy_match ratio t1 t2) else [])))) \<and>
   default_threshold = f0_6"
proof -
  have pos: "extract_keywords t1 \<noteq> {} \<Longrightarrow> 0 < card (extract_keywords t1 \<union> extract_keywords t2)"
    by (simp add: card_gt_0_iff finite_extract_keywords)
  have 1: "normalize_text t1 \<noteq> [] \<and> normalize_text t2 \<noteq> [] \<longrightarrow>
      fuzzy_match ratio t1 t2 =
        (if extract_keywords t1 \<noteq> {} \<and> extract_keywords t2 \<noteq> {}
         then fadd (fmul (ratio (normalize_text t1) (normalize_text t2)) f0_4)
                   (fmul (keyword_jaccard (extract_keywords t1) (extract_keywords t2)) f0_6)
         else ratio (normalize_text t1) (normalize_text t2))"
    using pos by (simp add: fuzzy_match_def keyword_jaccard_def Let_def)
  have 2: "undecided_by_strict_checks t1 t2 \<and> fle thr (fuzzy_match ratio t1 t2) \<longrightarrow>
      evaluate_answer ratio thr t1 t2 q c = (True, ''Correct!'')"
    by (simp add: evaluate_answer_def undecided_by_strict_checks_def Let_def)
  have 3: "undecided_by_strict_checks t1 t2 \<and> \<not> fle thr (fuzzy_match ratio t1 t2) \<longrightarrow>
      evaluate_answer ratio thr t1 t2 q c =
        (if check_key_phrases t1 t2 then (True, ''Correct!'')
         else (False, incorrect_feedback t2 @
                 (if flt f0_3 (fuzzy_match ratio t1 t2)
                  then close_feedback (fuzzy_match ratio t1 t2) else [])))"
    by (simp add: evaluate_answer_def undecided_by_strict_checks_def Let_def)
  show ?thesis using 1 2 3 by (simp only: default_threshold_def simp_thms)
qed

theorem fuzzy_score_formula_witness:
  "normalize_text ''iterative software methodology'' \<noteq> [] \<and>
   normalize_text ''iterative software development methodology'' \<noteq> [] \<and>
   extract_keywords ''iterative software methodology'' = {''iterative'', ''software'', ''methodology''} \<and>
   fuzzy_match short_ratio ''iterative software methodology''
       ''iterative software development methodology''
     = fadd (fmul (short_ratio ''iterative software methodology''
                     ''iterative software development methodology'') f0_4)
            (fmul (keyword_jaccard (extract_keywords ''iterative software methodology'')
                     (extract_keywords ''iterative software development methodology'')) f0_6) \<and>
   fuzzy_match short_ratio ''iterative software methodology''
       ''iterative software development methodology'' = PyFloat 7055639416213777 (- 53) \<and>
   evaluate_answer short_ratio default_threshold ''iterative software methodology''
       ''iterative software development methodology'' [] [] = (True, ''Correct!'') \<and>
   extract_keywords ''to be or'' = {} \<and>
   fuzzy_match short_ratio ''to be or'' ''not to be'' = short_ratio ''to be or'' ''not to be'' \<and>
   evaluate_answer short_ratio default_threshold ''to be or'' ''not to be'' [] []
     = (False, ''Incorrect. The correct answer is: not to be (Your answer was close: 59% similar)'')"
proof -
  let ?U = "''iterative software methodology''"
  let ?D = "''iterative software development methodology''"
  note F = fuzzy_score_formula [where ratio = short_ratio and thr = default_threshold
      and q = "[]" and c = "[]"]
  have n1: "normalize_text ?U \<noteq> []" by code_simp
  have n2: "normalize_text ?D \<noteq> []" by code_simp
  have n1': "normalize_text ?U = ?U" by code_simp
  have n2': "normalize_text ?D = ?D" by code_simp
  have k1: "extract_keywords ?U = {''iterative'', ''software'', ''methodology''}" by code_simp
  have k1': "extract_keywords ?U \<noteq> {}" by (simp only: k1 insert_not_empty not_False_eq_True)
  have k2: "extract_keywords ?D \<noteq> {}" by code_simp
  have 1: "fuzzy_match short_ratio ?U ?D
     = fadd (fmul (short_ratio ?U ?D) f0_4)
            (fmul (keyword_jaccard (extract_keywords ?U) (extract_keywords ?D)) f0_6)"
    using F [where ?t1.0 = ?U and ?t2.0 = ?D, THEN conjunct1, THEN mp, OF conjI [OF n1 n2]] k1' k2
    by (simp only: n1' n2' simp_thms if_True)
  have z: "fuzzy_match short_ratio ?U ?D = PyFloat 7055639416213777 (- 53)" by code_simp
  have u: "undecided_by_strict_checks ?U ?D" by code_simp
  have t: "fle default_threshold (PyFloat 7055639416213777 (- 53))" by code_simp
  note 2 = F [where ?t1.0 = ?U and ?t2.0 = ?D, THEN conjunct2, THEN conjunct1, THEN mp,
      OF conjI [OF u t [folded z]]]
  have m1: "normalize_text ''to be or'' \<noteq> []" by code_simp
  have m2: "normalize_text ''not to be'' \<noteq> []" by code_simp
  have m1': "normalize_text ''to be or'' = ''to be or''" by code_simp
  have m2': "normalize_text ''not to be'' = ''not to be''" by code_simp
  have j: "extract_keywords ''to be or'' = {}" by code_simp
  have 3: "fuzzy_match short_ratio ''to be or'' ''not to be''
      = short_ratio ''to be or'' ''not to be''"
    using F [where ?t1.0 = "''to be or''" and ?t2.0 = "''not to be''", THEN conjunct1, THEN mp,
      OF conjI [OF m1 m2]]
    by (simp only: j m1' m2' simp_thms if_False)
  have y: "fuzzy_match short_ratio ''to be or'' ''not to be'' = PyFloat 5298352502788819 (- 53)"
    by code_simp
  have v: "undecided_by_strict_checks ''to be or'' ''not to be''" by code_simp
  have w: "\<not> fle default_threshold (PyFloat 5298352502788819 (- 53))" by code_simp
  have x: "(if check_key_phrases ''to be or'' ''not to be'' then (True, ''Correct!'')
       else (False, incorrect_feedback ''not to be'' @
          (if flt f0_3 (PyFloat 5298352502788819 (- 53))
           then close_feedback (PyFloat 5298352502788819 (- 53)) else [])))
     = (False, ''Incorrect. The correct answer is: not to be (Your answer was close: 59% similar)'')"
    by code_simp
  have 4: "evaluate_answer short_ratio default_threshold ''to be or'' ''not to be'' [] []
     = (False, ''Incorrect. The correct answer is: not to be (Your answer was close: 59% similar)'')"
    using F [where ?t1.0 = "''to be or''" and ?t2.0 = "''not to be''", THEN conjunct2,
      THEN conjunct2, THEN conjunct1, THEN mp, OF conjI [OF v w [folded y]]]
    by (simp only: y x)
  show ?thesis
    by (intro conjI) (rule n1 n2 k1 1 z 2 j 3 4)+
qed

section \<open>The quiz runner\<close>

text \<open>
  Claim C9: for a question number out of range (below 1, above the number of stored
  results, or with no results stored) \<open>explain_question\<close> returns the message that the
  question was not found, and raises nothing; for a number in range it returns the
  explanation of that result, which is not that message.
\<close>

theorem explain_question_total:
  "(results = [] \<or> question_number < 1 \<or> int (length results) < question_number \<longrightarrow>
      explain_question results question_number = Inr not_found_message) \<and>
   (results \<noteq> [] \<and> 1 \<le> question_number \<and> question_number \<le> int (length results) \<longrightarrow>
      explain_question results question_number =
        Inr (explanation_of (results ! nat (question_number - 1))) \<and>
      explanation_of (results ! nat (question_number - 1)) \<noteq> not_found_message)"
  by (auto simp add: explain_question_def list_get_def Let_def explanation_of_def not_found_message_def)

theorem explain_question_total_witness:
  "explain_question [] 1 = Inr ''Question not found. Please run a quiz first.'' \<and>
   explain_question
     [\<lparr>res_question = ''What is Agile?'', res_user_answer = ''a method'',
       res_correct_answer = ''an iterative software development methodology'',
       res_is_correct = False, res_context = ''Agile is an iterative software development methodology.''\<rparr>] 0
     = Inr ''Question not found. Please run a quiz first.'' \<and>
   explain_question
     [\<lparr>res_question = ''What is Agile?'', res_user_answer = ''a method'',
       res_correct_answer = ''an iterative software development methodology'',
       res_is_correct = False, res_context = ''Agile is an iterative software development methodology.''\<rparr>] 2
     = Inr ''Question not found. Please run a quiz first.'' \<and>
   explain_question
     [\<lparr>res_question = ''What is Agile?'', res_user_answer = ''a method'',
       res_correct_answer = ''an iterative software development methodology'',
       res_is_correct = False, res_context = ''Agile is an iterative software development methodology.''\<rparr>] 1
     = Inr ([CHR 0x0A] @ ''Question: What is Agile?'' @ [CHR 0x0A]
            @ ''Correct Answer: an iterative software development methodology'' @ [CHR 0x0A]
            @ ''Source: Agile is an iterative software development methodology....'' @ [CHR 0x0A]
            @ ''Your Answer: a method'' @ [CHR 0x0A]
            @ ''Result: '' @ cross_mark @ '' Incorrect'' @ [CHR 0x0A])"
proof -
  let ?r = "\<lparr>res_question = ''What is Agile?'', res_user_answer = ''a method'',
       res_correct_answer = ''an iterative software development methodology'',
       res_is_correct = False, res_context = ''Agile is an iterative software development methodology.''\<rparr>"
  note E = explain_question_total
  have 1: "explain_question [] 1 = Inr not_found_message"
    using E [where results = "[]" and question_number = 1, THEN conjunct1] by simp
  have 2: "explain_question [?r] 0 = Inr not_found_message"
    using E [where results = "[?r]" and question_number = 0, THEN conjunct1] by simp
  have 3: "explain_question [?r] 2 = Inr not_found_message"
    using E [where results = "[?r]" and question_number = 2, THEN conjunct1] by simp
  have 4: "explain_question [?r] 1 = Inr (explanation_of ([?r] ! nat (1 - 1)))"
    using E [where results = "[?r]" and question_number = 1, THEN conjunct2] by simp
  have 5: "explanation_of ([?r] ! nat (1 - 1)) =
      [CHR 0x0A] @ ''Question: What is Agile?'' @ [CHR 0x0A]
            @ ''Correct Answer: an iterative software development methodology'' @ [CHR 0x0A]
            @ ''Source: Agile is an iterative software development methodology....'' @ [CHR 0x0A]
            @ ''Your Answer: a method'' @ [CHR 0x0A]
            @ ''Result: '' @ cross_mark @ '' Incorrect'' @ [CHR 0x0A]"
    by (simp add: explanation_of_def)
  show ?thesis
    unfolding 1 2 3 4 5 not_found_message_def by simp
qed

section \<open>The synthesizer\<close>

text \<open>
  What the post-processing does guarantee: a record that is returned has a question of more
  than 10 and at most 203 characters and an answer of more than 5 and at most 103
  characters, since the three characters of the ellipsis are appended after the cut at
  200 and at 100.
\<close>

lemma length_rsplit_head: "length (rsplit_head s) \<le> length s"
proof (cases "CHR '' '' \<in> set s")
  case True
  have "length (tl (dropWhile (\<lambda>c. c \<noteq> CHR '' '') (rev s)))
      \<le> length (dropWhile (\<lambda>c. c \<noteq> CHR '' '') (rev s))" by simp
  also have "\<dots> \<le> length (rev s)" by (rule length_dropWhile_le)
  finally show ?thesis using True by (simp add: rsplit_head_def)
next
  case False
  then show ?thesis by (simp add: rsplit_head_def)
qed

lemma length_truncate_at: "length (truncate_at k s) \<le> k + 3"
proof -
  have "length (rsplit_head (take k s)) \<le> length (take k s)" by (rule length_rsplit_head)
  then show ?thesis by (simp add: truncate_at_def)
qed

lemma length_clean_answer: "length (clean_answer a) \<le> 103"
  using length_truncate_at [of 100] by (simp add: clean_answer_def Let_def)

lemma length_clean_question: "length (clean_question q) \<le> 203"
  using length_truncate_at [of 200] by (simp add: clean_question_def Let_def)

lemma finish_question_bounds:
  "finish_question original qa = Some r \<Longrightarrow>
   10 < length (q_question r) \<and> length (q_question r) \<le> 203 \<and>
   5 < length (q_answer r) \<and> length (q_answer r) \<le> 103"
  using length_clean_answer length_clean_question
  by (auto simp: finish_question_def Let_def split: option.splits if_splits prod.splits)

lemma generate_question_from_sentence_bounds:
  "generate_question_from_sentence ext sentence = Some r \<Longrightarrow>
   10 < length (q_question r) \<and> length (q_question r) \<le> 203 \<and>
   5 < length (q_answer r) \<and> length (q_answer r) \<le> 103"
  by (auto simp: generate_question_from_sentence_def Let_def split: if_splits
      dest: finish_question_bounds)

text \<open>
  Claim C2: every record that the synthesizer returns has an answer of at most 100 and a
  question of at most 200 characters. The source cuts an over-long value at 100 (or 200)
  characters, drops what follows the last blank of the cut, and then appends the ellipsis,
  so the value can end up longer than the limit. On the sentence below strategy 3 yields a
  question of 222 characters; the 200th of them is a blank, so the 199 characters before it
  are kept and the returned question has 202. An answer without blanks of
  more than 100 characters comes out with 103.
\<close>

theorem truncated_question_exceeds_limit:
  "generate_question_from_sentence (demo_ext (\<lambda>t. Inr [])) onboarding_sentence
     = Some \<lparr>q_question = ''How long is the complete onboarding programme for newly hired staff, which covers security awareness, development environment setup, code review practice, release procedures, incident response drills...'',
             q_answer = ''6 weeks'',
             q_context = take 200 onboarding_sentence\<rparr> \<and>
   length ''How long is the complete onboarding programme for newly hired staff, which covers security awareness, development environment setup, code review practice, release procedures, incident response drills...'' = 202 \<and>
   length (clean_answer (replicate 101 CHR ''7'' @ '' days'')) = 103"
  by code_simp

section \<open>The relevance ranker\<close>

text \<open>
  The ranker itself never raises: without an index, or when the vector query raises, it
  returns the result of the keyword search.
\<close>

lemma find_relevant_sentences_returns:
  "\<exists>r. find_relevant_sentences ext g topic n = Inr r"
  by (simp add: find_relevant_sentences_def split: option.splits sum.splits)

lemma query_error_falls_back:
  "tfidf g = Some idx \<Longrightarrow> tfidf_query ext idx topic = Inl e \<Longrightarrow>
   find_relevant_sentences ext g topic n
     = Inr (find_relevant_sentences_keyword (sentences g) topic n)"
  by (simp add: find_relevant_sentences_def tfidf_search_def)

lemma no_index_falls_back:
  "tfidf g = None \<Longrightarrow>
   find_relevant_sentences ext g topic n
     = Inr (find_relevant_sentences_keyword (sentences g) topic n)"
  by (simp add: find_relevant_sentences_def)

text \<open>
  Claim C5: an error raised while the vector index is built is not recovered. The
  constructor calls \<open>_build_tfidf_index\<close> with no handler around \<open>fit_transform\<close>, so
  when the corpus is not empty and \<open>fit_transform\<close> raises, the exception leaves the
  constructor and no generator exists that could fall back to keyword matching.
\<close>

theorem index_build_error_leaves_constructor:
  "extract_sentences ext content \<noteq> [] \<and>
   tfidf_fit ext (extract_sentences ext content) = Inl e \<longrightarrow>
     QuestionGenerator_init ext content = Inl e"
  by (simp add: QuestionGenerator_init_def build_tfidf_index_def Let_def)

theorem index_build_error_leaves_constructor_witness:
  "extract_sentences (demo_ext (\<lambda>t. Inr [])) agile_sentence = [agile_sentence] \<and>
   tfidf_fit (demo_ext (\<lambda>t. Inr [])) [agile_sentence] = Inl ValueError \<and>
   QuestionGenerator_init (demo_ext (\<lambda>t. Inr [])) agile_sentence = Inl ValueError"
proof -
  let ?ext = "demo_ext (\<lambda>t. Inr [])"
  have x: "extract_sentences ?ext agile_sentence = [agile_sentence]" by code_simp
  have f: "tfidf_fit ?ext [agile_sentence] = Inl ValueError" by (simp add: demo_ext_def)
  have h: "extract_sentences ?ext agile_sentence \<noteq> [] \<and>
      tfidf_fit ?ext (extract_sentences ?ext agile_sentence) = Inl ValueError"
    unfolding x using f by simp
  from index_build_error_leaves_constructor [where ext = ?ext and content = agile_sentence
      and e = ValueError, THEN mp, OF h] x f
  show ?thesis by (intro conjI)
qed

lemma list_get_in_range: "i < length xs \<Longrightarrow> list_get xs (int i) = Inr (xs ! i)"
  by (simp add: list_get_def)

lemma pick_relevant_in_range:
  "list_all (\<lambda>i. i < length sims \<and> i < length sents) idxs \<Longrightarrow>
   pick_relevant sents sims idxs
     = Inr (map (\<lambda>i. sents ! i) (filter (\<lambda>i. min_similarity < sims ! i) idxs))"
  by (induction idxs) (simp_all add: list_get_in_range)

lemma set_last_n: "set (last_n n xs) \<subseteq> set xs"
  by (auto simp: last_n_def dest: in_set_dropD)

lemma sorted_wrt_last_n: "sorted_wrt R xs \<Longrightarrow> sorted_wrt R (last_n n xs)"
  by (simp add: last_n_def sorted_wrt_drop)

lemma distinct_last_n: "distinct xs \<Longrightarrow> distinct (last_n n xs)"
  by (simp add: last_n_def)

lemma sorted_wrt_chosen:
  assumes "sorted_wrt (\<lambda>i j. R j i) (asort sims)"
  shows "sorted_wrt R (chosen_indices asort sims n)"
proof -
  from assms have "sorted_wrt (\<lambda>i j. R j i) (last_n n (asort sims))"
    by (rule sorted_wrt_last_n)
  then have "sorted_wrt R (rev (last_n n (asort sims)))"
    by (simp add: sorted_wrt_rev)
  then show ?thesis
    unfolding chosen_indices_def by (intro sorted_wrt_take sorted_wrt_filter)
qed

lemma set_chosen:
  "set (chosen_indices asort sims n) \<subseteq> {i \<in> set (asort sims). min_similarity < sims ! i}"
proof -
  have "set (chosen_indices asort sims n)
      \<subseteq> set (filter (\<lambda>i. min_similarity < sims ! i) (rev (last_n n (asort sims))))"
    unfolding chosen_indices_def by (rule set_take_subset)
  also have "\<dots> \<subseteq> {i \<in> set (asort sims). min_similarity < sims ! i}"
    using set_last_n [of n "asort sims"] by auto
  finally show ?thesis .
qed

lemma insort_key_lex:
  "sorted_wrt (\<lambda>i j. f i < f j \<or> (f i = f j \<and> i < j)) ys \<Longrightarrow> \<forall>y \<in> set ys. x < y \<Longrightarrow>
   sorted_wrt (\<lambda>i j. f i < f j \<or> (f i = f j \<and> i < j)) (insort_key f x ys)"
proof (induction ys)
  case Nil
  then show ?case by simp
next
  case (Cons y ys)
  show ?case
  proof (cases "f x \<le> f y")
    case True
    have "\<forall>z \<in> set ys. f x < f z \<or> (f x = f z \<and> x < z)"
    proof
      fix z assume z: "z \<in> set ys"
      with Cons.prems(1) have "f y \<le> f z" by auto
      with True z Cons.prems(2) show "f x < f z \<or> (f x = f z \<and> x < z)" by auto
    qed
    with True Cons.prems show ?thesis by auto
  next
    case False
    with Cons show ?thesis by (auto simp: set_insort_key)
  qed
qed

lemma sort_key_lex:
  "sorted_wrt (<) xs \<Longrightarrow>
   sorted_wrt (\<lambda>i j. f i < f j \<or> (f i = f j \<and> i < j)) (sort_key f (xs :: nat list))"
proof (induction xs)
  case Nil
  then show ?case by simp
next
  case (Cons x xs)
  then have "sorted_wrt (\<lambda>i j. f i < f j \<or> (f i = f j \<and> i < j)) (sort_key f xs)" by simp
  moreover from Cons.prems have "\<forall>y \<in> set (sort_key f xs). x < y" by simp
  ultimately show ?case by (simp add: insort_key_lex)
qed

lemma stable_argsort_lex:
  "sorted_wrt (\<lambda>i j. sims ! i < sims ! j \<or> (sims ! i = sims ! j \<and> i < j)) (stable_argsort sims)"
  unfolding stable_argsort_def by (rule sort_key_lex) (simp add: sorted_wrt_upt)

lemma stable_argsort_sorts: "sorts_indices stable_argsort sims"
  by (simp add: sorts_indices_def stable_argsort_def)

text \<open>
  Claim C6, as amended: when the index is available, the query returns one score for each
  sentence and \<open>argsort\<close> lists the indices by ascending score, the ranker returns at most
  \<open>n\<close> sentences, each with a score above 0.1, by descending score; they are the first
  \<open>n\<close> entries above 0.1 of the reversed tail of the ascending index sort, so sentences
  with equal scores come in the reverse of the order that sort gives them: when the sort
  is stable, the later sentence of the corpus comes first.
\<close>

theorem find_relevant_sentences_vector_order:
  "tfidf g = Some idx \<and> tfidf_query ext idx topic = Inr sims \<and>
   length sims = length (sentences g) \<and> sorts_indices (argsort ext) sims \<longrightarrow>
     find_relevant_sentences ext g topic n
       = Inr (map (\<lambda>i. sentences g ! i) (chosen_indices (argsort ext) sims n)) \<and>
     length (chosen_indices (argsort ext) sims n) \<le> n \<and>
     list_all (\<lambda>i. i < length (sentences g) \<and> min_similarity < sims ! i)
       (chosen_indices (argsort ext) sims n) \<and>
     sorted_wrt (\<lambda>i j. sims ! j \<le> sims ! i) (chosen_indices (argsort ext) sims n) \<and>
     (argsort ext sims = stable_argsort sims \<longrightarrow>
        sorted_wrt (\<lambda>i j. sims ! j < sims ! i \<or> (sims ! j = sims ! i \<and> j < i))
          (chosen_indices (argsort ext) sims n))"
proof (intro impI, elim conjE)
  assume g: "tfidf g = Some idx" and q: "tfidf_query ext idx topic = Inr sims"
    and len: "length sims = length (sentences g)" and srt: "sorts_indices (argsort ext) sims"
  let ?as = "argsort ext sims"
  let ?ch = "chosen_indices (argsort ext) sims n"
  from srt have rng: "set ?as = {0 ..< length sims}" and asc: "sorted (map (\<lambda>i. sims ! i) ?as)"
    by (simp_all add: sorts_indices_def)
  have "list_all (\<lambda>i. i < length sims \<and> i < length (sentences g)) (rev (last_n n ?as))"
    using set_last_n [of n ?as] rng len by (auto simp: list_all_iff)
  then have "pick_relevant (sentences g) sims (rev (last_n n ?as))
      = Inr (map (\<lambda>i. sentences g ! i)
               (filter (\<lambda>i. min_similarity < sims ! i) (rev (last_n n ?as))))"
    by (rule pick_relevant_in_range)
  then have "tfidf_search ext g idx topic n = Inr (map (\<lambda>i. sentences g ! i) ?ch)"
    by (simp add: tfidf_search_def q Let_def chosen_indices_def take_map)
  then have 1: "find_relevant_sentences ext g topic n = Inr (map (\<lambda>i. sentences g ! i) ?ch)"
    by (simp add: find_relevant_sentences_def g)
  have 2: "length ?ch \<le> n" by (simp add: chosen_indices_def)
  have 3: "list_all (\<lambda>i. i < length (sentences g) \<and> min_similarity < sims ! i) ?ch"
    using set_chosen [of "argsort ext" sims n] rng len by (auto simp: list_all_iff)
  from asc have "sorted_wrt (\<lambda>i j. sims ! i \<le> sims ! j) ?as"
    by (simp add: sorted_map)
  then have 4: "sorted_wrt (\<lambda>i j. sims ! j \<le> sims ! i) ?ch"
    by (rule sorted_wrt_chosen)
  have 5: "?as = stable_argsort sims \<longrightarrow>
      sorted_wrt (\<lambda>i j. sims ! j < sims ! i \<or> (sims ! j = sims ! i \<and> j < i)) ?ch"
  proof
    assume "?as = stable_argsort sims"
    with stable_argsort_lex [of sims]
    have "sorted_wrt (\<lambda>i j. sims ! i < sims ! j \<or> (sims ! i = sims ! j \<and> i < j)) ?as"
      by simp
    then show "sorted_wrt (\<lambda>i j. sims ! j < sims ! i \<or> (sims ! j = sims ! i \<and> j < i)) ?ch"
      by (rule sorted_wrt_chosen)
  qed
  from 1 2 3 4 5 show "find_relevant_sentences ext g topic n
       = Inr (map (\<lambda>i. sentences g ! i) ?ch) \<and>
     length ?ch \<le> n \<and>
     list_all (\<lambda>i. i < length (sentences g) \<and> min_similarity < sims ! i) ?ch \<and>
     sorted_wrt (\<lambda>i j. sims ! j \<le> sims ! i) ?ch \<and>
     (?as = stable_argsort sims \<longrightarrow>
        sorted_wrt (\<lambda>i j. sims ! j < sims ! i \<or> (sims ! j = sims ! i \<and> j < i)) ?ch)"
    by blast
qed

theorem find_relevant_sentences_vector_order_witness:
  "sorts_indices stable_argsort [17 / 60, 17 / 60, 0] \<and>
   chosen_indices stable_argsort [17 / 60, 17 / 60, 0] 10 = [1, 0] \<and>
   find_relevant_sentences (demo_ext (\<lambda>t. Inr [17 / 60, 17 / 60, 0]))
       (demo_generator [alpha_sentence, beta_sentence, scrum_sentence]) ''testing'' 10
     = Inr [beta_sentence, alpha_sentence] \<and>
   sorted_wrt (\<lambda>i j. [17 / 60, 17 / 60, 0 :: rat] ! j < [17 / 60, 17 / 60, 0] ! i \<or>
                 ([17 / 60, 17 / 60, 0 :: rat] ! j = [17 / 60, 17 / 60, 0] ! i \<and> j < i))
     (chosen_indices stable_argsort [17 / 60, 17 / 60, 0] 10)"
proof -
  let ?sims = "[17 / 60, 17 / 60, 0] :: rat list"
  let ?ext = "demo_ext (\<lambda>t. Inr ?sims)"
  let ?g = "demo_generator [alpha_sentence, beta_sentence, scrum_sentence]"
  have a: "argsort ?ext = stable_argsort" by (simp add: demo_ext_def)
  have h1: "tfidf ?g = Some ()" by (simp add: demo_generator_def)
  have h2: "tfidf_query ?ext () ''testing'' = Inr ?sims" by (simp add: demo_ext_def)
  have h3: "length ?sims = length (sentences ?g)" by (simp add: demo_generator_def)
  have h4: "sorts_indices (argsort ?ext) ?sims" unfolding a by code_simp
  note T = find_relevant_sentences_vector_order [where ext = ?ext and g = ?g and idx = "()"
      and topic = "''testing''" and sims = ?sims and n = 10, THEN mp,
      OF conjI [OF h1 conjI [OF h2 conjI [OF h3 h4]]], unfolded a]
  have c: "chosen_indices stable_argsort ?sims 10 = [1, 0]" by code_simp
  have s: "map (\<lambda>i. sentences ?g ! i) [1, 0] = [beta_sentence, alpha_sentence]"
    by (simp add: demo_generator_def)
  from T [THEN conjunct1] have 1: "find_relevant_sentences ?ext ?g ''testing'' 10
      = Inr [beta_sentence, alpha_sentence]"
    by (simp only: c s)
  from T [THEN conjunct2, THEN conjunct2, THEN conjunct2, THEN conjunct2, THEN mp, OF refl]
  have 2: "sorted_wrt (\<lambda>i j. ?sims ! j < ?sims ! i \<or> (?sims ! j = ?sims ! i \<and> j < i))
     (chosen_indices stable_argsort ?sims 10)" .
  from h4 [unfolded a] c 1 2 show ?thesis by (intro conjI)
qed

text \<open>
  The claim as the specification states it fails: two sentences with the same score are
  returned with the later one of the corpus first.
\<close>

theorem ties_in_reverse_corpus_order:
  "find_relevant_sentences (demo_ext (\<lambda>t. Inr [17 / 60, 17 / 60, 0]))
       (demo_generator [alpha_sentence, beta_sentence, scrum_sentence]) ''testing'' 10
     = Inr [beta_sentence, alpha_sentence] \<and>
   [17 / 60, 17 / 60, 0 :: rat] ! 0 = [17 / 60, 17 / 60, 0] ! 1 \<and>
   \<not> ties_in_corpus_order [17 / 60, 17 / 60, 0]
       (chosen_indices (argsort (demo_ext (\<lambda>t. Inr [17 / 60, 17 / 60, 0])))
          [17 / 60, 17 / 60, 0] 10)"
  by code_simp

section \<open>The assembler\<close>

lemma attempt_consistent: "consistent st \<Longrightarrow> consistent (fst (attempt ext sentence st))"
  by (auto simp: attempt_def consistent_def no_duplicate_questions_def Let_def split: option.splits)

lemma first_pass_consistent:
  "consistent st \<Longrightarrow> consistent (first_pass ext n xs cf st)"
proof (induction xs arbitrary: cf st)
  case Nil
  then show ?case by simp
next
  case (Cons x xs)
  from Cons.prems have c: "consistent (fst (attempt ext x st))" by (rule attempt_consistent)
  show ?case
  proof (cases "attempt ext x st")
    case (Pair st' appended)
    with c have "consistent st'" by simp
    with Cons.IH Cons.prems Pair show ?thesis by (simp add: Let_def)
  qed
qed

lemma second_pass_consistent:
  "consistent st \<Longrightarrow> consistent (second_pass ext n xs st)"
  by (induction xs arbitrary: st) (simp_all add: attempt_consistent)

lemma third_pass_consistent:
  "consistent st \<Longrightarrow> consistent (third_pass ext n tried xs st)"
  by (induction xs arbitrary: st) (simp_all add: attempt_consistent)



lemma consistent_initial: "consistent \<lparr>questions = [], seen_questions = {}, attempted = []\<rparr>"
  by (simp add: consistent_def no_duplicate_questions_def)

lemma generate_run_consistent:
  "\<exists>st. generate_run ext g topic n = Inr st \<and> consistent st"
proof -
  have "\<exists>found. (case topic of
               None \<Rightarrow> Inr None
             | Some t \<Rightarrow>
                 if t = [] then Inr None
                 else (case find_relevant_sentences ext g t (n * 10) of
                         Inl e \<Rightarrow> Inl e
                       | Inr r \<Rightarrow> Inr (Some r))) = (Inr found :: py_error + string list option)"
  proof (cases topic)
    case None
    then show ?thesis by simp
  next
    case (Some t)
    obtain r where "find_relevant_sentences ext g t (n * 10) = Inr r"
      using find_relevant_sentences_returns by blast
    with Some show ?thesis by simp
  qed
  then obtain found where f: "(case topic of
               None \<Rightarrow> Inr None
             | Some t \<Rightarrow>
                 if t = [] then Inr None
                 else (case find_relevant_sentences ext g t (n * 10) of
                         Inl e \<Rightarrow> Inl e
                       | Inr r \<Rightarrow> Inr (Some r))) = (Inr found :: py_error + string list option)"
    by blast
  define relevant where "relevant =
     (case found of Some r \<Rightarrow> r
      | None \<Rightarrow> if n < length (sentences g)
                then sample_first ext (sentences g) (min (n * 10) (length (sentences g)))
                else sentences g)"
  define valid0 where "valid0 = filter (is_valid_sentence_for_question ext) relevant"
  define valid where
    "valid = (if length valid0 < n * 2 then filter lenient_filter relevant else valid0)"
  define st1 where "st1 = first_pass ext n valid 0
      \<lparr>questions = [], seen_questions = {}, attempted = []\<rparr>"
  define st2 where "st2 =
     (if length (questions st1) < n then
        let remaining_sentences = filter (\<lambda>s. s \<notin> set valid) (sentences g)
        in if remaining_sentences \<noteq> [] then
             let additional_sentences =
                   sample_more ext remaining_sentences
                     (min (n * 5) (length remaining_sentences));
                 additional_valid = filter lenient_filter additional_sentences
             in second_pass ext n additional_valid st1
           else st1
      else st1)"
  define st3 where "st3 =
     (if length (questions st2) < n then
        let all_remaining = shuffle ext (filter (\<lambda>s. 15 < length (strip s)) (sentences g))
        in third_pass ext n (set valid) all_remaining st2
      else st2)"
  have run: "generate_run ext g topic n = Inr st3"
    unfolding generate_run_def
    by (simp only: Let_def f sum.case st3_def st2_def st1_def valid_def valid0_def relevant_def)
  have 1: "consistent st1"
    unfolding st1_def by (rule first_pass_consistent [OF consistent_initial])
  have 2: "consistent st2"
    unfolding st2_def Let_def using 1 by (simp only: second_pass_consistent if_split simp_thms)
  have 3: "consistent st3"
    unfolding st3_def Let_def using 2 by (simp only: third_pass_consistent if_split simp_thms)
  from run 3 show ?thesis by blast
qed

text \<open>
  Claim C3: \<open>generate_questions\<close> returns a list of at most \<open>n\<close> records, no two of which
  have the same lowercased question text, whatever the three passes find.
\<close>

theorem generate_questions_bounded_and_distinct:
  "\<exists>qs. generate_questions ext g topic n = Inr qs \<and> length qs \<le> n \<and> no_duplicate_questions qs"
proof -
  obtain st where st: "generate_run ext g topic n = Inr st" and c: "consistent st"
    using generate_run_consistent by blast
  from c have "distinct (map (\<lambda>q. lower (q_question q)) (take n (questions st)))"
    unfolding consistent_def no_duplicate_questions_def
    by (simp add: take_map [symmetric] distinct_take)
  with st show ?thesis
    by (simp add: generate_questions_def no_duplicate_questions_def)
qed

text \<open>
  Claim C4: no sentence is handed to the synthesizer twice. The set \<open>tried_sentences\<close> is
  built from the sentences of the first pass and never extended, so the third pass skips
  those only: a sentence that the second pass tried is tried again. With a corpus of two
  sentences, the topic \<open>agile\<close> and five questions asked for, the first pass tries the
  first sentence, the second pass the second, and the third pass the second once more.
\<close>

theorem second_pass_sentence_attempted_again:
  "attempted_sentences (demo_ext (\<lambda>t. Inr [1 / 2, 0]))
       (demo_generator [agile_sentence, waterfall_sentence]) (Some ''agile'') 5
     = [agile_sentence, waterfall_sentence, waterfall_sentence] \<and>
   generate_questions (demo_ext (\<lambda>t. Inr [1 / 2, 0]))
       (demo_generator [agile_sentence, waterfall_sentence]) (Some ''agile'') 5
     = Inr [\<lparr>q_question = ''What is Agile?'',
              q_answer = ''an iterative software development methodology'',
              q_context = agile_sentence\<rparr>,
            \<lparr>q_question = ''What is Waterfall?'',
              q_answer = ''a linear software development methodology'',
              q_context = waterfall_sentence\<rparr>]"
  by code_simp

end
